theory Spec2Isabelle
  imports Main "HOL-Library.Sublist"
begin

section \<open>The OneNote diagram-publish pipeline (src/onenote/src/index.ts)\<close>

text \<open>
  The pipeline of \<^verbatim>\<open>OneNoteService.saveDiagram\<close> and
  \<^verbatim>\<open>OneNoteService.generateJpegFromMermaid\<close> talks to three collaborators that are
  not part of the repository: the headless browser (puppeteer), the Microsoft Graph client
  and the system clock. Each call to a collaborator is modelled as an \<^emph>\<open>event\<close> appended
  to a trace, and what the collaborator answers is read from a \<^emph>\<open>world\<close> record, so
  that every theorem quantifies over all behaviours of the collaborators.

  JavaScript strings and \<^verbatim>\<open>Buffer\<close>s are both modelled as \<open>string\<close> (a list of
  8-bit characters): a string stands for its UTF-8 encoding, which is what
  \<^verbatim>\<open>Buffer.from(s, "utf-8")\<close> produces for a well-formed string.
\<close>

subsection \<open>Thrown values\<close>

text \<open>
  \<open>JsError m\<close> is an instance of \<^verbatim>\<open>Error\<close> with message \<open>m\<close>;
  \<open>JsValue s\<close> is any other thrown value, \<open>s\<close> being what \<^verbatim>\<open>String(v)\<close> gives
  (the conversion is taken to return, as it does for every primitive value and every
  object with the inherited \<^verbatim>\<open>toString\<close>).
\<close>

datatype thrown = JsError string | JsValue string

text \<open>\<^verbatim>\<open>error instanceof Error ? error.message : dflt\<close>\<close>

fun message_or :: "string \<Rightarrow> thrown \<Rightarrow> string" where
  "message_or dflt (JsError m) = m"
| "message_or dflt (JsValue s) = dflt"

text \<open>\<^verbatim>\<open>error instanceof Error ? error.message : String(error)\<close>\<close>

fun message_or_string :: "thrown \<Rightarrow> string" where
  "message_or_string (JsError m) = m"
| "message_or_string (JsValue s) = s"

subsection \<open>Decimal rendering of a number in a template literal\<close>

definition digit_char :: "nat \<Rightarrow> char" where
  "digit_char d = ''0123456789'' ! d"

function show_nat :: "nat \<Rightarrow> string" where
  "show_nat n = (if n < 10 then [digit_char n] else show_nat (n div 10) @ [digit_char (n mod 10)])"
  by pat_completeness auto
termination
  by (relation "measure id") auto

declare show_nat.simps [simp del]

subsection \<open>Requests, events and the world\<close>

datatype http_verb = GET | POST | PATCH | DELETE

text \<open>
  A request of the Graph client: \<^verbatim>\<open>client.api(path).select(s).header(k, v).post(body)\<close>.
\<close>

record request =
  verb :: http_verb
  path :: string
  select :: "string option"
  headers :: "(string \<times> string) list"
  body :: string

datatype event =
    Import                         \<comment> \<open>\<^verbatim>\<open>await import("puppeteer")\<close>\<close>
  | Launch                         \<comment> \<open>\<^verbatim>\<open>puppeteer.default.launch(...)\<close>\<close>
  | NewPage                        \<comment> \<open>\<^verbatim>\<open>browser.newPage()\<close>\<close>
  | SetContent string              \<comment> \<open>\<^verbatim>\<open>page.setContent(html)\<close>\<close>
  | WaitForFunction string nat     \<comment> \<open>\<^verbatim>\<open>page.waitForFunction(fn, {timeout})\<close>\<close>
  | Query string                   \<comment> \<open>\<^verbatim>\<open>page.$(selector)\<close>\<close>
  | Screenshot string nat          \<comment> \<open>\<^verbatim>\<open>element.screenshot({type, quality})\<close>\<close>
  | Close                          \<comment> \<open>\<^verbatim>\<open>browser.close()\<close>\<close>
  | ConsoleError string thrown     \<comment> \<open>\<^verbatim>\<open>console.error(msg, error)\<close>\<close>
  | Log string                     \<comment> \<open>\<^verbatim>\<open>this.appendToLog(message)\<close>\<close>
  | Send request                   \<comment> \<open>a request sent through the Graph client\<close>
  | SetTimeout nat                 \<comment> \<open>\<^verbatim>\<open>await new Promise(r => setTimeout(r, ms))\<close>\<close>
  | DateNow                        \<comment> \<open>\<^verbatim>\<open>Date.now()\<close>\<close>

text \<open>
  The object the store returns for a created page. The code reads \<^verbatim>\<open>newPage.id\<close> and
  \<^verbatim>\<open>result.title\<close> from it (it is typed \<^verbatim>\<open>any\<close>); both are taken to be strings.
\<close>

record page =
  page_id :: string
  page_title :: string

text \<open>An element of \<^verbatim>\<open>response.value\<close> of a notebook or section listing.\<close>

record entity =
  entity_id :: string
  displayName :: string

text \<open>
  The answers of the collaborators. \<open>None\<close> (for a call without a result) and \<open>Inr\<close>
  mean that the promise resolves, \<open>Some e\<close> and \<open>Inl e\<close> that it rejects with \<open>e\<close>.
  \<open>query\<close> answers whether \<^verbatim>\<open>page.$(".mermaid")\<close> finds an element (\<open>False\<close> is
  \<^verbatim>\<open>null\<close>). \<open>date_now\<close> is the reading of \<^verbatim>\<open>Date.now()\<close>, a count of milliseconds
  that a template literal renders in decimal. \<open>stringify\<close> is
  \<^verbatim>\<open>JSON.stringify(apiError, null, 2)\<close>, which depends on the own properties of the thrown
  object and can itself throw a \<^verbatim>\<open>TypeError\<close> (a circular structure, a \<^verbatim>\<open>BigInt\<close>).
\<close>

record world =
  import_puppeteer :: "thrown option"
  launch :: "thrown option"
  new_page :: "thrown option"
  setContent :: "string \<Rightarrow> thrown option"
  waitForFunction :: "thrown option"
  query :: "thrown + bool"
  screenshot :: "thrown + string"
  close :: "thrown option"
  post_page :: "request \<Rightarrow> thrown + page"
  patch_page :: "request \<Rightarrow> thrown option"
  get_list :: "request \<Rightarrow> thrown + entity list"
  date_now :: nat
  stringify :: "thrown \<Rightarrow> thrown + string"

text \<open>
  A computation yields the trace of its events and either the value thrown or the value
  returned. \<open>bind_io\<close> is sequencing (\<^verbatim>\<open>await\<close> followed by the rest of the block).
\<close>

type_synonym 'a io = "event list \<times> (thrown + 'a)"

definition bind_io :: "'a io \<Rightarrow> ('a \<Rightarrow> 'b io) \<Rightarrow> 'b io" where
  "bind_io m f =
     (case m of
        (t, Inl e) \<Rightarrow> (t, Inl e)
      | (t, Inr x) \<Rightarrow> (case f x of (t', r) \<Rightarrow> (t @ t', r)))"

text \<open>A call whose promise resolves without a value of interest.\<close>

definition call :: "event \<Rightarrow> thrown option \<Rightarrow> unit io" where
  "call ev r = ([ev], case r of None \<Rightarrow> Inr () | Some e \<Rightarrow> Inl e)"

text \<open>
  \<^verbatim>\<open>appendToLog\<close> catches whatever its body throws (its \<^verbatim>\<open>catch\<close> clause only writes to
  the console), so it always returns; \<open>Log\<close> stands for the call.
\<close>

definition appendToLog :: "string \<Rightarrow> unit io" where
  "appendToLog message = ([Log message], Inr ())"

subsection \<open>The render engine: generateJpegFromMermaid\<close>

definition mermaid_html :: "string \<Rightarrow> string" where
  \<open>mermaid_html mermaidCode =
     ''\<newline>      <!DOCTYPE html>\<newline>      <html>\<newline>      <head>\<newline>'' @
     ''        <script src="https://cdn.jsdelivr.net/npm/mermaid/dist/mermaid.min.js"></script>\<newline>'' @
     ''        <script>\<newline>          mermaid.initialize({\<newline>'' @
     ''            startOnLoad: true,\<newline>            theme: 'neutral',\<newline>'' @
     ''            securityLevel: 'loose'\<newline>          });\<newline>        </script>\<newline>'' @
     ''      </head>\<newline>      <body>\<newline>        <div class="mermaid">\<newline>          '' @
     mermaidCode @
     ''\<newline>        </div>\<newline>      </body>\<newline>      </html>\<newline>      ''\<close>

text \<open>The body of the \<^verbatim>\<open>try\<close> block.\<close>

definition render_try :: "world \<Rightarrow> string \<Rightarrow> string io" where
  \<open>render_try w mermaidCode =
     bind_io (call Launch (launch w)) (\<lambda>_.
     bind_io (appendToLog (''generateJpegFromMermaid mermaidCode '' @ mermaidCode)) (\<lambda>_.
     bind_io (call NewPage (new_page w)) (\<lambda>_.
     bind_io (call (SetContent (mermaid_html mermaidCode))
                   (setContent w (mermaid_html mermaidCode))) (\<lambda>_.
     bind_io (appendToLog ''generateJpegFromMermaid HTML Content set'') (\<lambda>_.
     bind_io (call (WaitForFunction ''document.querySelector(".mermaid svg")'' 5000)
                   (waitForFunction w)) (\<lambda>_.
     bind_io ([Query ''.mermaid''], query w) (\<lambda>element.
       if element then ([Screenshot ''jpeg'' 80], screenshot w)
       else ([], Inl (JsError ''Cannot read properties of null (reading 'screenshot')'')))))))))\<close>

text \<open>The \<^verbatim>\<open>catch\<close> clause: log to the console and throw a new \<^verbatim>\<open>Error\<close>.\<close>

definition render_catch :: "string io \<Rightarrow> string io" where
  \<open>render_catch m =
     (case m of
        (t, Inl e) \<Rightarrow>
          (t @ [ConsoleError ''Error converting Mermaid to JPEG:'' e],
           Inl (JsError (''Failed to convert Mermaid diagram to JPEG: '' @
                         message_or ''Unknown error'' e)))
      | (t, Inr buf) \<Rightarrow> (t, Inr buf))\<close>

text \<open>
  The \<^verbatim>\<open>finally\<close> clause: \<^verbatim>\<open>browser\<close> is non-null exactly when the launch resolved;
  a rejection of \<^verbatim>\<open>browser.close()\<close> replaces the outcome of the block.
\<close>

definition render_finally :: "world \<Rightarrow> string io \<Rightarrow> string io" where
  "render_finally w m =
     (if launch w = None then
        (case m of (t, r) \<Rightarrow>
           (t @ [Close], case close w of None \<Rightarrow> r | Some e \<Rightarrow> Inl e))
      else m)"

definition generateJpegFromMermaid :: "world \<Rightarrow> string \<Rightarrow> string io" where
  "generateJpegFromMermaid w mermaidCode =
     bind_io (call Import (import_puppeteer w)) (\<lambda>_.
       render_finally w (render_catch (render_try w mermaidCode)))"

subsection \<open>JSON.stringify on the values the program serialises\<close>

datatype json = JString string | JArray "json list" | JObject "(string \<times> json) list"

definition hex_char :: "nat \<Rightarrow> char" where
  "hex_char d = ''0123456789abcdef'' ! d"

text \<open>
  The escapes of \<^verbatim>\<open>JSON.stringify\<close> in a string: the quote, the backslash, the five
  short control escapes and \<^verbatim>\<open>\u00XX\<close> for every other character below 0x20.
\<close>

definition json_escape_char :: "char \<Rightarrow> string" where
  "json_escape_char c =
     (if c = CHR 0x22 then [CHR 0x5C, CHR 0x22]
      else if c = CHR 0x5C then [CHR 0x5C, CHR 0x5C]
      else if c = CHR 0x08 then [CHR 0x5C, CHR ''b'']
      else if c = CHR 0x0C then [CHR 0x5C, CHR ''f'']
      else if c = CHR 0x0A then [CHR 0x5C, CHR ''n'']
      else if c = CHR 0x0D then [CHR 0x5C, CHR ''r'']
      else if c = CHR 0x09 then [CHR 0x5C, CHR ''t'']
      else if (of_char c :: nat) < 32 then
        [CHR 0x5C, CHR ''u'', CHR ''0'', CHR ''0'',
         hex_char ((of_char c :: nat) div 16), hex_char ((of_char c :: nat) mod 16)]
      else [c])"

definition json_quote :: "string \<Rightarrow> string" where
  "json_quote s = [CHR 0x22] @ concat (map json_escape_char s) @ [CHR 0x22]"

fun join_with :: "string \<Rightarrow> string list \<Rightarrow> string" where
  "join_with sep [] = []"
| "join_with sep [x] = x"
| "join_with sep (x # y # ys) = x @ sep @ join_with sep (y # ys)"

fun json_stringify :: "json \<Rightarrow> string" where
  "json_stringify (JString s) = json_quote s"
| "json_stringify (JArray vs) = ''['' @ join_with '','' (map json_stringify vs) @ '']''"
| "json_stringify (JObject kvs) =
     ''{'' @ join_with '','' (map (\<lambda>(k, v). json_quote k @ '':'' @ json_stringify v) kvs) @ ''}''"

subsection \<open>The publish coordinator: saveDiagram\<close>

definition CRLF :: string where
  "CRLF = [CHR 0x0D, CHR 0x0A]"

definition text_content :: "string \<Rightarrow> string \<Rightarrow> string \<Rightarrow> string" where
  \<open>text_content title description content =
     ''# '' @ title @ ''\<newline>          '' @
     (if description \<noteq> [] then description else []) @
     ''\<newline>\<newline>          ## Diagram Source (Mermaid)\<newline>          ```\<newline>          '' @
     content @ ''\<newline>          ```\<newline>          ''\<close>

definition page_html :: "string \<Rightarrow> string \<Rightarrow> string" where
  \<open>page_html title textContent =
     ''<!DOCTYPE html><html><head><title>'' @ title @ ''</title></head><body><div>'' @
     textContent @ ''</div></body></html>''\<close>

definition create_request :: "string \<Rightarrow> string \<Rightarrow> request" where
  \<open>create_request sectionId html =
     \<lparr> verb = POST, path = ''/me/onenote/sections/'' @ sectionId @ ''/pages'', select = None,
       headers = [(''Content-Type'', ''application/xhtml+xml'')], body = html \<rparr>\<close>

text \<open>\<^verbatim>\<open>`PartBoundary${Date.now()}`\<close>\<close>

definition boundary_of :: "nat \<Rightarrow> string" where
  "boundary_of t = ''PartBoundary'' @ show_nat t"

definition img_tag :: "string \<Rightarrow> string" where
  \<open>img_tag title =
     ''<img src="name:diagramImage" alt="'' @ title @ ''" data-src-type="image/jpeg"/>''\<close>

definition commands :: "string \<Rightarrow> json" where
  "commands title =
     JArray [JObject [(''target'', JString ''body''), (''action'', JString ''append''),
                      (''content'', JString (img_tag title))]]"

definition commandsPart :: "string \<Rightarrow> string \<Rightarrow> string" where
  \<open>commandsPart boundary title =
     ''--'' @ boundary @ CRLF @
     ''Content-Disposition: form-data; name="Commands"'' @ CRLF @
     ''Content-Type: application/json'' @ CRLF @
     CRLF @
     json_stringify (commands title) @
     CRLF\<close>

definition imagePart :: "string \<Rightarrow> string" where
  \<open>imagePart boundary =
     ''--'' @ boundary @ CRLF @
     ''Content-Disposition: form-data; name="diagramImage"'' @ CRLF @
     ''Content-Type: image/jpeg'' @ CRLF @
     ''Content-Transfer-Encoding: binary'' @ CRLF @
     CRLF\<close>

definition closingBoundary :: "string \<Rightarrow> string" where
  "closingBoundary boundary = CRLF @ ''--'' @ boundary @ ''--'' @ CRLF"

definition multipartBuffer :: "string \<Rightarrow> string \<Rightarrow> string \<Rightarrow> string" where
  "multipartBuffer boundary title jpegBuffer =
     commandsPart boundary title @ imagePart boundary @ jpegBuffer @ closingBoundary boundary"

definition patch_request :: "string \<Rightarrow> string \<Rightarrow> string \<Rightarrow> request" where
  \<open>patch_request pageId boundary buffer =
     \<lparr> verb = PATCH, path = ''/me/onenote/pages/'' @ pageId @ ''/content'', select = None,
       headers = [(''Content-Type'', ''multipart/form-data; boundary='' @ boundary)],
       body = buffer \<rparr>\<close>

text \<open>
  The inner \<^verbatim>\<open>catch\<close> around the PATCH: log and rethrow. The argument of
  \<^verbatim>\<open>appendToLog\<close> is evaluated first: when \<^verbatim>\<open>JSON.stringify(apiError, null, 2)\<close> throws,
  nothing is logged and that error, not \<^verbatim>\<open>apiError\<close>, leaves the clause.
\<close>

definition patch_catch :: "world \<Rightarrow> thrown \<Rightarrow> unit io" where
  \<open>patch_catch w apiError =
     (case stringify w apiError of
        Inl typeError \<Rightarrow> ([], Inl typeError)
      | Inr json \<Rightarrow> ([Log (''PATCH request failed: '' @ json)], Inl apiError))\<close>

text \<open>The inner \<^verbatim>\<open>try\<close> around the PATCH.\<close>

definition patch_try :: "world \<Rightarrow> request \<Rightarrow> unit io" where
  "patch_try w req =
     (case patch_page w req of
        None \<Rightarrow> ([Send req], Inr ())
      | Some apiError \<Rightarrow>
          (case patch_catch w apiError of (t, r) \<Rightarrow> (Send req # t, r)))"

text \<open>The body of the outer \<^verbatim>\<open>try\<close> block.\<close>

definition save_try :: "world \<Rightarrow> string \<Rightarrow> string \<Rightarrow> string \<Rightarrow> string \<Rightarrow> page io" where
  \<open>save_try w sectionId title content description =
     bind_io (generateJpegFromMermaid w content) (\<lambda>jpegBuffer.
     bind_io (appendToLog (''JPEG generated successfully in memory, size: '' @
                           show_nat (length jpegBuffer) @ '' bytes'')) (\<lambda>_.
     bind_io ([Send (create_request sectionId
                       (page_html title (text_content title description content)))],
              post_page w (create_request sectionId
                       (page_html title (text_content title description content)))) (\<lambda>newPage.
     bind_io (appendToLog (''Created page with ID: '' @ page_id newPage)) (\<lambda>_.
     bind_io ([SetTimeout 5000], Inr ()) (\<lambda>_.
     bind_io ([DateNow], Inr (boundary_of (date_now w))) (\<lambda>boundary.
     bind_io (appendToLog (''Multipart commands part:\<newline>'' @ commandsPart boundary title)) (\<lambda>_.
     bind_io (appendToLog (''Multipart image part headers:\<newline>'' @ imagePart boundary)) (\<lambda>_.
     bind_io (appendToLog (''Multipart closing boundary:\<newline>'' @ closingBoundary boundary)) (\<lambda>_.
     bind_io (patch_try w (patch_request (page_id newPage) boundary
                             (multipartBuffer boundary title jpegBuffer))) (\<lambda>_.
     bind_io (appendToLog (''JPEG image successfully appended to page ID: '' @
                           page_id newPage)) (\<lambda>_.
       ([], Inr newPage))))))))))))\<close>

text \<open>The outer \<^verbatim>\<open>catch\<close>: log, then throw a new \<^verbatim>\<open>Error\<close> that wraps the message.\<close>

definition save_catch :: "page io \<Rightarrow> page io" where
  \<open>save_catch m =
     (case m of
        (t, Inl e) \<Rightarrow>
          (t @ [Log (''Error in saveDiagram: '' @ message_or_string e)],
           Inl (JsError (''Failed to save diagram: '' @ message_or_string e)))
      | (t, Inr newPage) \<Rightarrow> (t, Inr newPage))\<close>

definition saveDiagram :: "world \<Rightarrow> string \<Rightarrow> string \<Rightarrow> string \<Rightarrow> string \<Rightarrow> page io" where
  "saveDiagram w sectionId title content description =
     save_catch (save_try w sectionId title content description)"

subsection \<open>The tool-call handler, branch \<^verbatim>\<open>name === "onenote-diagram"\<close>\<close>

definition notebooks_request :: request where
  \<open>notebooks_request =
     \<lparr> verb = GET, path = ''/users/me/onenote/notebooks'',
       select = Some ''id,displayName,createdDateTime,lastModifiedDateTime'',
       headers = [], body = [] \<rparr>\<close>

definition getNotebooks :: "world \<Rightarrow> entity list io" where
  "getNotebooks w = ([Send notebooks_request], get_list w notebooks_request)"

definition sections_request :: "string \<Rightarrow> request" where
  \<open>sections_request notebookId =
     \<lparr> verb = GET, path = ''/me/onenote/notebooks/'' @ notebookId @ ''/sections'',
       select = Some ''id,displayName,pagesUrl'', headers = [], body = [] \<rparr>\<close>

definition getSections :: "world \<Rightarrow> string \<Rightarrow> entity list io" where
  "getSections w notebookId =
     ([Send (sections_request notebookId)], get_list w (sections_request notebookId))"

text \<open>The result of a tool call: \<^verbatim>\<open>{content: [{type: "text", text}], isError}\<close>.\<close>

record tool_result =
  result_text :: string
  isError :: bool

definition diagram_try ::
  "world \<Rightarrow> string \<Rightarrow> string \<Rightarrow> string \<Rightarrow> string \<Rightarrow> string \<Rightarrow> tool_result io" where
  \<open>diagram_try w title content notebookName sectionName description =
     bind_io (getNotebooks w) (\<lambda>notebooks.
       case find (\<lambda>nb. displayName nb = notebookName) notebooks of
         None \<Rightarrow> ([], Inl (JsError (''Notebook "'' @ notebookName @ ''" not found'')))
       | Some notebook \<Rightarrow>
     bind_io (getSections w (entity_id notebook)) (\<lambda>sections.
       case find (\<lambda>s. displayName s = sectionName) sections of
         None \<Rightarrow> ([], Inl (JsError (''Section "'' @ sectionName @
                                    ''" not found in notebook "'' @ notebookName @ ''"'')))
       | Some section \<Rightarrow>
     bind_io (saveDiagram w (entity_id section) title content description) (\<lambda>result.
       ([], Inr \<lparr> result_text = json_stringify (JObject
                     [(''id'', JString (page_id result)),
                      (''title'', JString (page_title result)),
                      (''notebookName'', JString notebookName),
                      (''sectionName'', JString sectionName),
                      (''message'', JString ''Diagram saved successfully to OneNote'')]),
                 isError = False \<rparr>))))\<close>

definition diagram_catch :: "tool_result io \<Rightarrow> tool_result io" where
  \<open>diagram_catch m =
     (case m of
        (t, Inl e) \<Rightarrow>
          (t, Inr \<lparr> result_text = json_stringify (JObject
                       [(''error'', JString (message_or_string e)),
                        (''message'', JString ''Failed to save diagram to OneNote'')]),
                   isError = True \<rparr>)
      | (t, Inr r) \<Rightarrow> (t, Inr r))\<close>

text \<open>
  \<open>description\<close> is \<^verbatim>\<open>(parameters.description as string) || ""\<close>. A \<open>type\<close> other than
  \<^verbatim>\<open>"save_diagram"\<close> falls through to the final \<^verbatim>\<open>throw\<close>, which the outer
  \<^verbatim>\<open>catch\<close> of the handler wraps.
\<close>

definition call_tool_diagram ::
  "world \<Rightarrow> string \<Rightarrow> string \<Rightarrow> string \<Rightarrow> string \<Rightarrow> string \<Rightarrow> string option \<Rightarrow> tool_result io" where
  \<open>call_tool_diagram w type title content notebookName sectionName description =
     (if type = ''save_diagram'' then
        diagram_catch (diagram_try w title content notebookName sectionName
                         (case description of None \<Rightarrow> [] | Some d \<Rightarrow> d))
      else
        ([], Inl (JsError (''Failed to execute tool: '' @
                           ''Unsupported tool or operation: '' @ ''onenote-diagram''))))\<close>

subsection \<open>Observations on traces and a sample world\<close>

text \<open>The requests sent to the store, in order.\<close>

fun sends :: "event list \<Rightarrow> request list" where
  "sends [] = []"
| "sends (Send r # t) = r # sends t"
| "sends (_ # t) = sends t"

text \<open>
  A world in which every collaborator succeeds: the scenario of the specification
  (the store answers \<^verbatim>\<open>{id: "pg-1", title: "Flow"}\<close>).
\<close>

definition world_ok :: world where
  \<open>world_ok =
     \<lparr> import_puppeteer = None, launch = None, new_page = None, setContent = (\<lambda>_. None),
       waitForFunction = None, query = Inr True, screenshot = Inr ''JFIF'', close = None,
       post_page = (\<lambda>_. Inr \<lparr> page_id = ''pg-1'', page_title = ''Flow'' \<rparr>),
       patch_page = (\<lambda>_. None),
       get_list = (\<lambda>r. if path r = ''/users/me/onenote/notebooks''
                         then Inr [\<lparr> entity_id = ''nb-1'', displayName = ''Work'' \<rparr>]
                         else Inr [\<lparr> entity_id = ''sec-1'', displayName = ''Architecture'' \<rparr>]),
       date_now = 5, stringify = (\<lambda>_. Inr ''{}'') \<rparr>\<close>

text \<open>The two requests that \<open>saveDiagram\<close> builds, named for the statements below.\<close>

abbreviation placeholder_request :: "string \<Rightarrow> string \<Rightarrow> string \<Rightarrow> string \<Rightarrow> request" where
  "placeholder_request sid title content descr \<equiv>
     create_request sid (page_html title (text_content title descr content))"

abbreviation image_request :: "world \<Rightarrow> page \<Rightarrow> string \<Rightarrow> string \<Rightarrow> request" where
  "image_request w pg title jpeg \<equiv>
     patch_request (page_id pg) (boundary_of (date_now w))
       (multipartBuffer (boundary_of (date_now w)) title jpeg)"

text \<open>
  The two errors the program creates: the one thrown by the \<^verbatim>\<open>catch\<close> clause of
  \<open>generateJpegFromMermaid\<close> and the one thrown by the outer \<^verbatim>\<open>catch\<close> clause of
  \<open>saveDiagram\<close>, named for the statements below.
\<close>

abbreviation conversion_error :: "thrown \<Rightarrow> thrown" where
  "conversion_error e \<equiv>
     JsError (''Failed to convert Mermaid diagram to JPEG: '' @ message_or ''Unknown error'' e)"

abbreviation save_error :: "thrown \<Rightarrow> thrown" where
  "save_error e \<equiv> JsError (''Failed to save diagram: '' @ message_or_string e)"

text \<open>Variations of \<open>world_ok\<close> in which one collaborator fails.\<close>

definition world_timeout :: world where
  "world_timeout =
     world_ok\<lparr>waitForFunction := Some (JsError ''Waiting failed: 5000ms exceeded'')\<rparr>"

definition world_no_browser :: world where
  "world_no_browser =
     world_ok\<lparr>launch := Some (JsError ''Failed to launch the browser process'')\<rparr>"

definition world_create_fails :: world where
  "world_create_fails = world_ok\<lparr>post_page := (\<lambda>_. Inl (JsError ''Service unavailable''))\<rparr>"

definition world_patch_fails :: world where
  "world_patch_fails = world_ok\<lparr>patch_page := (\<lambda>_. Some (JsError ''Service unavailable''))\<rparr>"

definition world_import_fails :: world where
  "world_import_fails = world_ok\<lparr>import_puppeteer := Some (JsError ''Service unavailable'')\<rparr>"

definition world_close_fails :: world where
  "world_close_fails = world_ok\<lparr>close := Some (JsError ''Service unavailable'')\<rparr>"

definition world_close_rejects_42 :: world where
  "world_close_rejects_42 = world_ok\<lparr>close := Some (JsValue ''42'')\<rparr>"

definition world_patch_circular :: world where
  "world_patch_circular =
     world_patch_fails\<lparr>stringify := (\<lambda>_. Inl (JsError ''Converting circular structure to JSON''))\<rparr>"

definition world_empty_shot :: world where
  "world_empty_shot = world_ok\<lparr>screenshot := Inr []\<rparr>"

text \<open>A world whose screenshot contains the delimiter of the body it will be put in.\<close>

definition world_collision :: world where
  "world_collision = world_ok\<lparr>screenshot := Inr (''A'' @ CRLF @ ''--PartBoundary5--'')\<rparr>"

subsection \<open>A reference multipart parser\<close>

text \<open>
  The specification measures the body against a reference multipart parser. The parser
  below is not part of the program: it follows RFC 2046, section 5.1.1. The body starts
  with the dash-boundary line; a part ends at the first delimiter, which is CRLF, two
  dashes and the boundary, followed by CRLF (another part follows) or by two dashes (the
  close delimiter, after which the epilogue is ignored). A part is its header lines, an
  empty line and the content; the name of a part is taken from its
  \<^verbatim>\<open>Content-Disposition: form-data; name="..."\<close> header.
\<close>

text \<open>
  The text before the first delimiter \<open>d\<close>, whether that delimiter is the closing one, and
  the text after it.
\<close>

fun find_delimiter :: "string \<Rightarrow> string \<Rightarrow> (string \<times> bool \<times> string) option" where
  "find_delimiter d [] = None"
| "find_delimiter d (c # cs) =
     (if prefix (d @ CRLF) (c # cs) then Some ([], False, drop (length d + 2) (c # cs))
      else if prefix (d @ ''--'') (c # cs) then Some ([], True, drop (length d + 2) (c # cs))
      else map_option (\<lambda>(p, fin, r). (c # p, fin, r)) (find_delimiter d cs))"

function split_parts :: "string \<Rightarrow> string \<Rightarrow> string list option" where
  "split_parts d s =
     (case find_delimiter d s of
        None \<Rightarrow> None
      | Some (p, True, r) \<Rightarrow> Some [p]
      | Some (p, False, r) \<Rightarrow> map_option (Cons p) (split_parts d r))"
  by pat_completeness auto
termination
proof -
  have less: "length r < length s" if "find_delimiter d s = Some (p, fin, r)" for d s p fin r
    using that
  proof (induction s arbitrary: p)
    case Nil
    then show ?case by simp
  next
    case (Cons c cs)
    show ?case
    proof (cases "prefix (d @ CRLF) (c # cs) \<or> prefix (d @ ''--'') (c # cs)")
      case True
      with Cons.prems show ?thesis by (auto split: if_splits)
    next
      case False
      with Cons.prems obtain p' where "find_delimiter d cs = Some (p', fin, r)"
        by (auto split: if_splits)
      from Cons.IH [OF this] show ?thesis by simp
    qed
  qed
  show ?thesis
    by (relation "measure (\<lambda>(d, s). length s)") (auto dest: less)
qed

text \<open>The header lines of a part (up to the empty line) and its content.\<close>

fun read_headers :: "string \<Rightarrow> string \<Rightarrow> (string list \<times> string) option" where
  "read_headers cur [] = None"
| "read_headers cur [c] = None"
| "read_headers cur (c # c' # cs) =
     (if c = CHR 0x0D \<and> c' = CHR 0x0A then
        (if cur = [] then Some ([], cs)
         else map_option (\<lambda>(hs, b). (cur # hs, b)) (read_headers [] cs))
      else read_headers (cur @ [c]) (c' # cs))"

fun disposition_name :: "string list \<Rightarrow> string option" where
  "disposition_name [] = None"
| \<open>disposition_name (h # hs) =
     (if prefix ''Content-Disposition: form-data; name="'' h
      then Some (takeWhile (\<lambda>c. c \<noteq> CHR 0x22) (drop 38 h))
      else disposition_name hs)\<close>

record mime_part =
  part_name :: "string option"
  header_lines :: "string list"
  part_content :: string

definition parse_part :: "string \<Rightarrow> mime_part option" where
  "parse_part p =
     (case read_headers [] p of
        None \<Rightarrow> None
      | Some (hs, b) \<Rightarrow> Some \<lparr> part_name = disposition_name hs, header_lines = hs, part_content = b \<rparr>)"

definition parse_multipart :: "string \<Rightarrow> string \<Rightarrow> mime_part list option" where
  "parse_multipart boundary s =
     (if prefix (''--'' @ boundary @ CRLF) s then
        (case split_parts (CRLF @ ''--'' @ boundary) (drop (length boundary + 4) s) of
           None \<Rightarrow> None
         | Some ps \<Rightarrow> those (map parse_part ps))
      else None)"

subsection \<open>Reading a JSON string literal\<close>

text \<open>
  The inverse of the serialisation of a string, after RFC 8259, section 7: what a JSON
  parser on the side of the store recovers from a string literal. It is not part of the
  program. Strings being byte sequences here, a \<^verbatim>\<open>\u\<close> escape is read only for a code
  point below 128.
\<close>

definition hex_value :: "char \<Rightarrow> nat option" where
  "hex_value c =
     (if 48 \<le> (of_char c :: nat) \<and> (of_char c :: nat) \<le> 57 then Some (of_char c - 48)
      else if 97 \<le> (of_char c :: nat) \<and> (of_char c :: nat) \<le> 102 then Some (of_char c - 87)
      else if 65 \<le> (of_char c :: nat) \<and> (of_char c :: nat) \<le> 70 then Some (of_char c - 55)
      else None)"

definition hex4 :: "char \<Rightarrow> char \<Rightarrow> char \<Rightarrow> char \<Rightarrow> nat option" where
  "hex4 a b c d =
     (case (hex_value a, hex_value b, hex_value c, hex_value d) of
        (Some p, Some q, Some r, Some s) \<Rightarrow> Some (((p * 16 + q) * 16 + r) * 16 + s)
      | _ \<Rightarrow> None)"

definition simple_escape :: "char \<Rightarrow> char option" where
  "simple_escape e =
     (if e = CHR 0x22 then Some (CHR 0x22)
      else if e = CHR 0x5C then Some (CHR 0x5C)
      else if e = CHR ''/'' then Some (CHR ''/'')
      else if e = CHR ''b'' then Some (CHR 0x08)
      else if e = CHR ''f'' then Some (CHR 0x0C)
      else if e = CHR ''n'' then Some (CHR 0x0A)
      else if e = CHR ''r'' then Some (CHR 0x0D)
      else if e = CHR ''t'' then Some (CHR 0x09)
      else None)"

fun json_unescape :: "string \<Rightarrow> string option" where
  "json_unescape [] = Some []"
| "json_unescape [c] =
     (if c = CHR 0x5C \<or> c = CHR 0x22 \<or> (of_char c :: nat) < 32 then None else Some [c])"
| "json_unescape (c # e # cs) =
     (if c = CHR 0x5C then
        (if e = CHR ''u'' then
           (case cs of
              a # b # x # y # rest \<Rightarrow>
                (case hex4 a b x y of
                   None \<Rightarrow> None
                 | Some n \<Rightarrow>
                     if n < 128 then map_option (Cons (char_of n)) (json_unescape rest)
                     else None)
            | _ \<Rightarrow> None)
         else
           (case simple_escape e of
              None \<Rightarrow> None
            | Some x \<Rightarrow> map_option (Cons x) (json_unescape cs)))
      else if c = CHR 0x22 \<or> (of_char c :: nat) < 32 then None
      else map_option (Cons c) (json_unescape (e # cs)))"

definition json_unquote :: "string \<Rightarrow> string option" where
  "json_unquote s =
     (case s of
        [] \<Rightarrow> None
      | q # rest \<Rightarrow>
          if q = CHR 0x22 \<and> rest \<noteq> [] \<and> last rest = CHR 0x22
          then json_unescape (butlast rest) else None)"

text \<open>Reading a decimal rendering back, the inverse of \<open>show_nat\<close>.\<close>

definition digit_value :: "char \<Rightarrow> nat" where
  "digit_value c = of_char c - 48"

definition read_nat :: "string \<Rightarrow> nat" where
  "read_nat s = foldl (\<lambda>a c. 10 * a + digit_value c) 0 s"

section \<open>Basic facts about computations\<close>

lemma fst_bind_io:
  "fst (bind_io m f) = (case snd m of Inl e \<Rightarrow> fst m | Inr x \<Rightarrow> fst m @ fst (f x))"
  by (cases m) (auto simp: bind_io_def split: sum.splits prod.splits)

lemma snd_bind_io:
  "snd (bind_io m f) = (case snd m of Inl e \<Rightarrow> Inl e | Inr x \<Rightarrow> snd (f x))"
  by (cases m) (auto simp: bind_io_def split: sum.splits prod.splits)

lemma fst_call: "fst (call ev r) = [ev]"
  by (simp add: call_def)

lemma snd_call: "snd (call ev r) = (case r of None \<Rightarrow> Inr () | Some e \<Rightarrow> Inl e)"
  by (simp add: call_def)

lemma fst_appendToLog: "fst (appendToLog s) = [Log s]"
  by (simp add: appendToLog_def)

lemma snd_appendToLog: "snd (appendToLog s) = Inr ()"
  by (simp add: appendToLog_def)

lemma fst_render_catch:
  \<open>fst (render_catch m) =
     (case snd m of Inl e \<Rightarrow> fst m @ [ConsoleError ''Error converting Mermaid to JPEG:'' e]
                  | Inr buf \<Rightarrow> fst m)\<close>
  by (cases m) (simp add: render_catch_def split: sum.splits)

lemma snd_render_catch:
  \<open>snd (render_catch m) =
     (case snd m of
        Inl e \<Rightarrow> Inl (JsError (''Failed to convert Mermaid diagram to JPEG: '' @
                              message_or ''Unknown error'' e))
      | Inr buf \<Rightarrow> Inr buf)\<close>
  by (cases m) (simp add: render_catch_def split: sum.splits)

lemma fst_render_finally:
  "fst (render_finally w m) = (if launch w = None then fst m @ [Close] else fst m)"
  by (cases m) (simp add: render_finally_def)

lemma snd_render_finally:
  "snd (render_finally w m) =
     (if launch w = None then (case close w of None \<Rightarrow> snd m | Some e \<Rightarrow> Inl e) else snd m)"
  by (cases m) (auto simp: render_finally_def split: option.splits)

lemma fst_save_catch:
  \<open>fst (save_catch m) =
     (case snd m of Inl e \<Rightarrow> fst m @ [Log (''Error in saveDiagram: '' @ message_or_string e)]
                  | Inr p \<Rightarrow> fst m)\<close>
  by (cases m) (simp add: save_catch_def split: sum.splits)

lemma snd_save_catch:
  \<open>snd (save_catch m) =
     (case snd m of
        Inl e \<Rightarrow> Inl (JsError (''Failed to save diagram: '' @ message_or_string e))
      | Inr p \<Rightarrow> Inr p)\<close>
  by (cases m) (simp add: save_catch_def split: sum.splits)

lemma fst_patch_try:
  \<open>fst (patch_try w req) =
     (case patch_page w req of
        None \<Rightarrow> [Send req]
      | Some e \<Rightarrow>
          (case stringify w e of
             Inl typeError \<Rightarrow> [Send req]
           | Inr json \<Rightarrow> [Send req, Log (''PATCH request failed: '' @ json)]))\<close>
  by (simp add: patch_try_def patch_catch_def split: option.splits sum.splits)

lemma snd_patch_try:
  "snd (patch_try w req) =
     (case patch_page w req of
        None \<Rightarrow> Inr ()
      | Some e \<Rightarrow> (case stringify w e of Inl typeError \<Rightarrow> Inl typeError | Inr json \<Rightarrow> Inl e))"
  by (simp add: patch_try_def patch_catch_def split: option.splits sum.splits)

lemma fst_diagram_catch: "fst (diagram_catch m) = fst m"
  by (cases m) (simp add: diagram_catch_def split: sum.splits)

lemma isError_diagram_catch:
  "snd m = Inl e \<Longrightarrow> \<exists>r. snd (diagram_catch m) = Inr r \<and> isError r"
  by (cases m) (simp add: diagram_catch_def)

lemmas io_simps =
  fst_bind_io snd_bind_io fst_call snd_call fst_appendToLog snd_appendToLog
  fst_render_catch snd_render_catch fst_render_finally snd_render_finally
  fst_save_catch snd_save_catch fst_patch_try snd_patch_try fst_diagram_catch

lemma show_nat_digit: "n < 10 \<Longrightarrow> show_nat n = [digit_char n]"
  by (subst show_nat.simps) simp

lemma boundary_of_5: "boundary_of 5 = ''PartBoundary5''"
  by (simp add: boundary_of_def show_nat_digit digit_char_def)

lemma sends_append: "sends (a @ b) = sends a @ sends b"
  by (induction a rule: sends.induct) simp_all

section \<open>The stages of the pipeline\<close>

lemma sends_render_try: "sends (fst (render_try w c)) = []"
  by (simp add: render_try_def io_simps sends_append split: sum.splits option.splits)

lemma sends_render: "sends (fst (generateJpegFromMermaid w c)) = []"
  by (simp add: generateJpegFromMermaid_def io_simps sends_append sends_render_try
           split: sum.splits option.splits)

lemma snd_saveDiagram:
  "snd (saveDiagram w sid title content descr) =
     (case snd (generateJpegFromMermaid w content) of
        Inl e \<Rightarrow> Inl (JsError (''Failed to save diagram: '' @ message_or_string e))
      | Inr jpeg \<Rightarrow>
          (case post_page w (create_request sid (page_html title (text_content title descr content))) of
             Inl e \<Rightarrow> Inl (JsError (''Failed to save diagram: '' @ message_or_string e))
           | Inr pg \<Rightarrow>
               (case patch_page w (patch_request (page_id pg) (boundary_of (date_now w))
                                     (multipartBuffer (boundary_of (date_now w)) title jpeg)) of
                  Some e \<Rightarrow>
                    (case stringify w e of
                       Inl typeError \<Rightarrow>
                         Inl (JsError (''Failed to save diagram: '' @ message_or_string typeError))
                     | Inr json \<Rightarrow>
                         Inl (JsError (''Failed to save diagram: '' @ message_or_string e)))
                | None \<Rightarrow> Inr pg)))"
  by (simp add: saveDiagram_def save_try_def io_simps split: sum.splits option.splits)

lemma sends_saveDiagram:
  "sends (fst (saveDiagram w sid title content descr)) =
     (case snd (generateJpegFromMermaid w content) of
        Inl e \<Rightarrow> []
      | Inr jpeg \<Rightarrow>
          (case post_page w (create_request sid (page_html title (text_content title descr content))) of
             Inl e \<Rightarrow> [create_request sid (page_html title (text_content title descr content))]
           | Inr pg \<Rightarrow>
               [create_request sid (page_html title (text_content title descr content)),
                patch_request (page_id pg) (boundary_of (date_now w))
                                     (multipartBuffer (boundary_of (date_now w)) title jpeg)]))"
  by (simp add: saveDiagram_def save_try_def io_simps sends_append sends_render split: sum.splits option.splits)

lemmas world_defs = world_ok_def world_timeout_def world_no_browser_def world_create_fails_def
  world_import_fails_def world_close_fails_def world_close_rejects_42_def world_patch_circular_def
  world_patch_fails_def world_empty_shot_def

lemma snd_render_try:
  \<open>snd (render_try w c) =
     (case launch w of Some e \<Rightarrow> Inl e | None \<Rightarrow>
      case new_page w of Some e \<Rightarrow> Inl e | None \<Rightarrow>
      case setContent w (mermaid_html c) of Some e \<Rightarrow> Inl e | None \<Rightarrow>
      case waitForFunction w of Some e \<Rightarrow> Inl e | None \<Rightarrow>
      case query w of Inl e \<Rightarrow> Inl e | Inr el \<Rightarrow>
        if el then screenshot w
        else Inl (JsError ''Cannot read properties of null (reading 'screenshot')''))\<close>
  by (simp add: render_try_def io_simps split: sum.splits option.splits)

lemma snd_render:
  "snd (generateJpegFromMermaid w c) =
     (case import_puppeteer w of Some e \<Rightarrow> Inl e | None \<Rightarrow>
        snd (render_finally w (render_catch (render_try w c))))"
  by (simp add: generateJpegFromMermaid_def io_simps split: option.splits)

lemmas render_eval = snd_render snd_render_finally snd_render_catch snd_render_try

lemma verb_create_request [simp]: "verb (create_request sid html) = POST"
  by (simp add: create_request_def)

lemma verb_patch_request [simp]: "verb (patch_request pid b buf) = PATCH"
  by (simp add: patch_request_def)

text \<open>
  Claim C1, as amended. A failure at any stage of \<open>saveDiagram\<close> prevents every later
  store call. If rendering fails, no request at all is sent to the store (so the page is
  never created) and the call fails with one \<^verbatim>\<open>Error\<close> whose message is
  \<^verbatim>\<open>Failed to save diagram: \<close> followed by the message of what the render threw; the code
  has no type for a render failure. If the creation of the page fails, the POST is the only
  request sent. A PATCH request occurs in the trace only if the creation of the page
  succeeded.
\<close>

theorem publish_failure_stops_later_store_calls:
  "(\<forall>e. snd (generateJpegFromMermaid w content) = Inl e \<longrightarrow>
        sends (fst (saveDiagram w sid title content descr)) = [] \<and>
        snd (saveDiagram w sid title content descr) =
          Inl (JsError (''Failed to save diagram: '' @ message_or_string e)))
   \<and> (\<forall>jpeg e. snd (generateJpegFromMermaid w content) = Inr jpeg \<and>
        post_page w (create_request sid (page_html title (text_content title descr content))) = Inl e \<longrightarrow>
        sends (fst (saveDiagram w sid title content descr)) =
          [create_request sid (page_html title (text_content title descr content))] \<and>
        snd (saveDiagram w sid title content descr) =
          Inl (JsError (''Failed to save diagram: '' @ message_or_string e)))
   \<and> (\<forall>r \<in> set (sends (fst (saveDiagram w sid title content descr))). verb r = PATCH \<longrightarrow>
        (\<exists>pg. post_page w (create_request sid (page_html title (text_content title descr content))) = Inr pg))"
proof (intro conjI allI impI ballI)
  fix e assume "snd (generateJpegFromMermaid w content) = Inl e"
  then show "sends (fst (saveDiagram w sid title content descr)) = []"
    and "snd (saveDiagram w sid title content descr) =
          Inl (JsError (''Failed to save diagram: '' @ message_or_string e))"
    by (simp_all add: snd_saveDiagram sends_saveDiagram)
next
  fix jpeg e
  assume "snd (generateJpegFromMermaid w content) = Inr jpeg \<and>
        post_page w (create_request sid (page_html title (text_content title descr content))) = Inl e"
  then show "sends (fst (saveDiagram w sid title content descr)) =
          [create_request sid (page_html title (text_content title descr content))]"
    and "snd (saveDiagram w sid title content descr) =
          Inl (JsError (''Failed to save diagram: '' @ message_or_string e))"
    by (simp_all add: snd_saveDiagram sends_saveDiagram)
next
  fix r
  assume r: "r \<in> set (sends (fst (saveDiagram w sid title content descr)))" "verb r = PATCH"
  show "\<exists>pg. post_page w (create_request sid (page_html title (text_content title descr content))) = Inr pg"
  proof (cases "post_page w (create_request sid (page_html title (text_content title descr content)))")
    case (Inr pg)
    then show ?thesis by blast
  next
    case (Inl e)
    with r show ?thesis
      by (cases "snd (generateJpegFromMermaid w content)") (auto simp: sends_saveDiagram)
  qed
qed

text \<open>Claim C1: the theorem at concrete worlds.\<close>

theorem publish_failure_stops_later_store_calls_witness:
  \<open>sends (fst (saveDiagram world_timeout ''sec-1'' ''Flow'' ''graph TD; A-->B'' [])) = [] \<and>
   snd (saveDiagram world_timeout ''sec-1'' ''Flow'' ''graph TD; A-->B'' []) =
     Inl (JsError (''Failed to save diagram: Failed to convert Mermaid diagram to JPEG: Waiting failed: 5000ms exceeded'')) \<and>
   map verb (sends (fst (saveDiagram world_create_fails ''sec-1'' ''Flow'' ''graph TD; A-->B'' []))) = [POST] \<and>
   snd (saveDiagram world_create_fails ''sec-1'' ''Flow'' ''graph TD; A-->B'' []) =
     Inl (JsError ''Failed to save diagram: Service unavailable'') \<and>
   map verb (sends (fst (saveDiagram world_ok ''sec-1'' ''Flow'' ''graph TD; A-->B'' []))) = [POST, PATCH]\<close>
proof -
  have a: \<open>snd (generateJpegFromMermaid world_timeout ''graph TD; A-->B'') =
      Inl (JsError ''Failed to convert Mermaid diagram to JPEG: Waiting failed: 5000ms exceeded'')\<close>
    by (simp add: render_eval world_defs)
  have b: \<open>snd (generateJpegFromMermaid world_create_fails ''graph TD; A-->B'') = Inr ''JFIF''\<close>
    by (simp add: render_eval world_defs)
  have c: \<open>post_page world_create_fails (create_request ''sec-1''
      (page_html ''Flow'' (text_content ''Flow'' [] ''graph TD; A-->B''))) = Inl (JsError ''Service unavailable'')\<close>
    by (simp add: world_defs)
  have d: \<open>map verb (sends (fst (saveDiagram world_ok ''sec-1'' ''Flow'' ''graph TD; A-->B'' []))) = [POST, PATCH]\<close>
    by (simp add: sends_saveDiagram render_eval world_defs)
  from publish_failure_stops_later_store_calls [of world_timeout "''graph TD; A-->B''" "''sec-1''" "''Flow''" "[]"] a
    publish_failure_stops_later_store_calls [of world_create_fails "''graph TD; A-->B''" "''sec-1''" "''Flow''" "[]"] b c d
  show ?thesis by simp
qed

text \<open>
  Claim C1 as stated fails in its outcome: the result of a failed render is not a render
  failure by type or by content. When the import of puppeteer rejects, the render fails and
  the call has the very outcome of a call whose render succeeded and whose POST was
  rejected with the same message.
\<close>

theorem publish_failure_stops_later_store_calls_counterexample:
  \<open>snd (generateJpegFromMermaid world_import_fails ''graph TD; A-->B'') =
     Inl (JsError ''Service unavailable'')
   \<and> snd (generateJpegFromMermaid world_create_fails ''graph TD; A-->B'') = Inr ''JFIF''
   \<and> snd (saveDiagram world_import_fails ''sec-1'' ''Flow'' ''graph TD; A-->B'' []) =
       Inl (JsError ''Failed to save diagram: Service unavailable'')
   \<and> snd (saveDiagram world_create_fails ''sec-1'' ''Flow'' ''graph TD; A-->B'' []) =
       Inl (JsError ''Failed to save diagram: Service unavailable'')\<close>
  by (simp add: snd_saveDiagram render_eval world_defs)

lemma fst_saveDiagram:
  \<open>fst (saveDiagram w sid title content descr) =
     fst (generateJpegFromMermaid w content) @
     (case snd (generateJpegFromMermaid w content) of
        Inl e \<Rightarrow> [Log (''Error in saveDiagram: '' @ message_or_string e)]
      | Inr jpeg \<Rightarrow>
          [Log (''JPEG generated successfully in memory, size: '' @ show_nat (length jpeg) @ '' bytes''),
           Send (create_request sid (page_html title (text_content title descr content)))] @
          (case post_page w (create_request sid (page_html title (text_content title descr content))) of
             Inl e \<Rightarrow> [Log (''Error in saveDiagram: '' @ message_or_string e)]
           | Inr pg \<Rightarrow>
               [Log (''Created page with ID: '' @ page_id pg),
                SetTimeout 5000,
                DateNow,
                Log (''Multipart commands part:\<newline>'' @ commandsPart (boundary_of (date_now w)) title),
                Log (''Multipart image part headers:\<newline>'' @ imagePart (boundary_of (date_now w))),
                Log (''Multipart closing boundary:\<newline>'' @ closingBoundary (boundary_of (date_now w))),
                Send (patch_request (page_id pg) (boundary_of (date_now w))
                        (multipartBuffer (boundary_of (date_now w)) title jpeg))] @
               (case patch_page w (patch_request (page_id pg) (boundary_of (date_now w))
                        (multipartBuffer (boundary_of (date_now w)) title jpeg)) of
                  None \<Rightarrow> [Log (''JPEG image successfully appended to page ID: '' @ page_id pg)]
                | Some e \<Rightarrow>
                    (case stringify w e of
                       Inl typeError \<Rightarrow>
                         [Log (''Error in saveDiagram: '' @ message_or_string typeError)]
                     | Inr json \<Rightarrow>
                         [Log (''PATCH request failed: '' @ json),
                          Log (''Error in saveDiagram: '' @ message_or_string e)]))))\<close>
  by (simp add: saveDiagram_def save_try_def io_simps split: sum.splits option.splits)

lemma render_try_no_close: "Close \<notin> set (fst (render_try w c))"
  by (simp add: render_try_def io_simps split: sum.splits option.splits)

lemma render_try_one_launch: "count_list (fst (render_try w c)) Launch = 1"
  by (simp add: render_try_def io_simps split: sum.splits option.splits)

lemma render_try_screenshot:
  "snd (render_try w c) = Inr buf \<Longrightarrow> Screenshot ''jpeg'' 80 \<in> set (fst (render_try w c))"
  by (simp add: render_try_def io_simps split: sum.splits option.splits if_splits)

lemma render_try_timeout:
  "WaitForFunction s n \<in> set (fst (render_try w c)) \<Longrightarrow> n = 5000"
  by (simp add: render_try_def io_simps split: sum.splits option.splits if_splits)

lemma fst_render:
  \<open>fst (generateJpegFromMermaid w c) =
     (case import_puppeteer w of
        Some e \<Rightarrow> [Import]
      | None \<Rightarrow>
          Import # fst (render_try w c) @
          (case snd (render_try w c) of
             Inl e \<Rightarrow> [ConsoleError ''Error converting Mermaid to JPEG:'' e] | Inr buf \<Rightarrow> []) @
          (if launch w = None then [Close] else []))\<close>
  by (simp add: generateJpegFromMermaid_def io_simps split: sum.splits option.splits)

text \<open>
  Claim C5, as amended. On every exit path on which the browser was launched,
  \<^verbatim>\<open>browser.close()\<close> is called exactly once, as the last action of the call. When the
  launch itself fails (or puppeteer cannot be imported) there is no browser, and
  \<^verbatim>\<open>close\<close> is not called.
\<close>

theorem browser_closed_once_when_launched:
  "count_list (fst (generateJpegFromMermaid w c)) Close =
     (if import_puppeteer w = None \<and> launch w = None then 1 else 0)
   \<and> (import_puppeteer w = None \<and> launch w = None \<longrightarrow>
        last (fst (generateJpegFromMermaid w c)) = Close)"
proof -
  have "count_list (fst (render_try w c)) Close = 0"
    using render_try_no_close [of w c] by (simp add: count_list_0_iff)
  then show ?thesis
    by (simp add: fst_render split: sum.splits option.splits)
qed

text \<open>Claim C5: the theorem at concrete worlds.\<close>

theorem browser_closed_once_when_launched_witness:
  \<open>count_list (fst (generateJpegFromMermaid world_ok ''graph TD; A-->B'')) Close = 1 \<and>
   last (fst (generateJpegFromMermaid world_ok ''graph TD; A-->B'')) = Close \<and>
   count_list (fst (generateJpegFromMermaid world_timeout ''graph TD; A-->B'')) Close = 1 \<and>
   last (fst (generateJpegFromMermaid world_timeout ''graph TD; A-->B'')) = Close\<close>
  using browser_closed_once_when_launched [of world_ok "''graph TD; A-->B''"] browser_closed_once_when_launched [of world_timeout "''graph TD; A-->B''"]
  by (simp add: world_defs)

text \<open>
  Claim C5 as stated fails on the start-up failure path: when the launch rejects,
  \<^verbatim>\<open>browser\<close> is still \<^verbatim>\<open>null\<close> in the \<^verbatim>\<open>finally\<close> clause and \<^verbatim>\<open>close\<close> is
  called zero times, not once.
\<close>

theorem browser_closed_once_when_launched_counterexample:
  \<open>launch world_no_browser = Some (JsError ''Failed to launch the browser process'') \<and>
   count_list (fst (generateJpegFromMermaid world_no_browser ''graph TD; A-->B'')) Close = 0\<close>
  by (simp add: fst_render render_try_def io_simps world_defs)

text \<open>
  Claim C4, as amended. The outcome of \<open>generateJpegFromMermaid\<close> is, for every world
  and every markup: the error of the import, as it is, when puppeteer cannot be imported;
  else the conversion error of the launch when the launch rejects (no browser, no close);
  else the rejection of \<^verbatim>\<open>browser.close()\<close>, as it is, when closing rejects; else the
  conversion error of the first step that fails among \<^verbatim>\<open>newPage\<close>, \<^verbatim>\<open>setContent\<close>, the
  wait for the rendered element, \<^verbatim>\<open>page.$\<close> (also when it finds nothing) and the
  screenshot; else exactly the buffer of the screenshot. The conversion error is
  \<^verbatim>\<open>Failed to convert Mermaid diagram to JPEG: \<close> followed by the message of the cause
  (\<^verbatim>\<open>Unknown error\<close> for a cause that is no \<^verbatim>\<open>Error\<close>). A returned buffer is the one of a
  screenshot of type \<^verbatim>\<open>jpeg\<close> and quality 80; the code does not inspect it, so it is
  non-empty provided the screenshot is. The wait has a timeout of 5000 ms.
\<close>

theorem render_returns_the_screenshot_or_fails:
  \<open>snd (generateJpegFromMermaid w c) =
     (case import_puppeteer w of Some e \<Rightarrow> Inl e | None \<Rightarrow>
      case launch w of Some e \<Rightarrow> Inl (conversion_error e) | None \<Rightarrow>
      case close w of Some e \<Rightarrow> Inl e | None \<Rightarrow>
      case new_page w of Some e \<Rightarrow> Inl (conversion_error e) | None \<Rightarrow>
      case setContent w (mermaid_html c) of Some e \<Rightarrow> Inl (conversion_error e) | None \<Rightarrow>
      case waitForFunction w of Some e \<Rightarrow> Inl (conversion_error e) | None \<Rightarrow>
      case query w of Inl e \<Rightarrow> Inl (conversion_error e) | Inr element \<Rightarrow>
        if element then
          (case screenshot w of Inl e \<Rightarrow> Inl (conversion_error e) | Inr buf \<Rightarrow> Inr buf)
        else Inl (conversion_error
                    (JsError ''Cannot read properties of null (reading 'screenshot')'')))
   \<and> (\<forall>buf. snd (generateJpegFromMermaid w c) = Inr buf \<longrightarrow>
        screenshot w = Inr buf \<and> Screenshot ''jpeg'' 80 \<in> set (fst (generateJpegFromMermaid w c)))
   \<and> (screenshot w \<noteq> Inr [] \<longrightarrow> snd (generateJpegFromMermaid w c) \<noteq> Inr [])
   \<and> (\<forall>s n. WaitForFunction s n \<in> set (fst (generateJpegFromMermaid w c)) \<longrightarrow> n = 5000)\<close>
proof (intro conjI allI impI)
  show \<open>snd (generateJpegFromMermaid w c) =
     (case import_puppeteer w of Some e \<Rightarrow> Inl e | None \<Rightarrow>
      case launch w of Some e \<Rightarrow> Inl (conversion_error e) | None \<Rightarrow>
      case close w of Some e \<Rightarrow> Inl e | None \<Rightarrow>
      case new_page w of Some e \<Rightarrow> Inl (conversion_error e) | None \<Rightarrow>
      case setContent w (mermaid_html c) of Some e \<Rightarrow> Inl (conversion_error e) | None \<Rightarrow>
      case waitForFunction w of Some e \<Rightarrow> Inl (conversion_error e) | None \<Rightarrow>
      case query w of Inl e \<Rightarrow> Inl (conversion_error e) | Inr element \<Rightarrow>
        if element then
          (case screenshot w of Inl e \<Rightarrow> Inl (conversion_error e) | Inr buf \<Rightarrow> Inr buf)
        else Inl (conversion_error
                    (JsError ''Cannot read properties of null (reading 'screenshot')'')))\<close>
    by (simp add: render_eval split: option.splits sum.splits)
next
  fix buf assume ok: "snd (generateJpegFromMermaid w c) = Inr buf"
  then have r: "snd (render_try w c) = Inr buf" and i: "import_puppeteer w = None"
    by (auto simp: snd_render snd_render_finally snd_render_catch split: option.splits sum.splits if_splits)
  from r show "screenshot w = Inr buf"
    by (simp add: snd_render_try split: option.splits sum.splits if_splits)
  from render_try_screenshot [OF r] i
  show "Screenshot ''jpeg'' 80 \<in> set (fst (generateJpegFromMermaid w c))"
    by (simp add: fst_render)
next
  assume ne: "screenshot w \<noteq> Inr []"
  show "snd (generateJpegFromMermaid w c) \<noteq> Inr []"
  proof
    assume "snd (generateJpegFromMermaid w c) = Inr []"
    then have "snd (render_try w c) = Inr []"
      by (auto simp: snd_render snd_render_finally snd_render_catch split: option.splits sum.splits if_splits)
    then have "screenshot w = Inr []"
      by (simp add: snd_render_try split: option.splits sum.splits if_splits)
    with ne show False by simp
  qed
next
  fix s n assume "WaitForFunction s n \<in> set (fst (generateJpegFromMermaid w c))"
  then have "WaitForFunction s n \<in> set (fst (render_try w c))"
    by (simp add: fst_render split: option.splits sum.splits if_splits)
  then show "n = 5000" by (rule render_try_timeout)
qed

text \<open>Claim C4: the theorem at concrete worlds.\<close>

theorem render_returns_the_screenshot_or_fails_witness:
  \<open>snd (generateJpegFromMermaid world_ok ''graph TD; A-->B'') = Inr ''JFIF'' \<and>
   screenshot world_ok = Inr ''JFIF'' \<and>
   Screenshot ''jpeg'' 80 \<in> set (fst (generateJpegFromMermaid world_ok ''graph TD; A-->B'')) \<and>
   snd (generateJpegFromMermaid world_no_browser ''graph TD; A-->B'') =
     Inl (JsError ''Failed to convert Mermaid diagram to JPEG: Failed to launch the browser process'') \<and>
   snd (generateJpegFromMermaid world_timeout ''graph TD; A-->B'') =
     Inl (JsError ''Failed to convert Mermaid diagram to JPEG: Waiting failed: 5000ms exceeded'') \<and>
   snd (generateJpegFromMermaid world_close_rejects_42 ''graph TD; A-->B'') = Inl (JsValue ''42'') \<and>
   snd (generateJpegFromMermaid world_import_fails ''graph TD; A-->B'') =
     Inl (JsError ''Service unavailable'')\<close>
proof -
  have a: \<open>snd (generateJpegFromMermaid world_ok ''graph TD; A-->B'') = Inr ''JFIF''\<close>
    by (simp add: render_eval world_defs)
  from a render_returns_the_screenshot_or_fails [of world_ok "''graph TD; A-->B''"]
    render_returns_the_screenshot_or_fails [of world_no_browser "''graph TD; A-->B''"]
    render_returns_the_screenshot_or_fails [of world_timeout "''graph TD; A-->B''"]
    render_returns_the_screenshot_or_fails [of world_close_rejects_42 "''graph TD; A-->B''"]
    render_returns_the_screenshot_or_fails [of world_import_fails "''graph TD; A-->B''"]
  show ?thesis by (simp add: world_defs)
qed

text \<open>
  Claim C4 as stated fails: when the screenshot call resolves with an empty buffer, the
  render succeeds and returns that empty buffer.
\<close>

theorem render_returns_the_screenshot_or_fails_counterexample:
  \<open>snd (generateJpegFromMermaid world_empty_shot ''graph TD; A-->B'') = Inr []\<close>
  by (simp add: render_eval world_defs)

text \<open>
  Claim C6, as amended. When the page was created and the PATCH request fails,
  \<open>saveDiagram\<close> fails with one \<^verbatim>\<open>Error\<close> whose message is
  \<^verbatim>\<open>Failed to save diagram: \<close> followed by the message of what the PATCH threw, or, when
  \<^verbatim>\<open>JSON.stringify\<close> of that value throws while the failure is logged, by the message of
  what \<^verbatim>\<open>JSON.stringify\<close> threw; the code has no type for a patch failure. The only
  requests sent to the store are the POST that created the page and the failed PATCH: no
  DELETE request is issued, so the placeholder page is not rolled back.
\<close>

theorem patch_failure_leaves_placeholder:
  \<open>snd (generateJpegFromMermaid w content) = Inr jpeg \<Longrightarrow>
   post_page w (placeholder_request sid title content descr) = Inr pg \<Longrightarrow>
   patch_page w (image_request w pg title jpeg) = Some e \<Longrightarrow>
     snd (saveDiagram w sid title content descr) =
       Inl (save_error (case stringify w e of Inl typeError \<Rightarrow> typeError | Inr json \<Rightarrow> e))
     \<and> sends (fst (saveDiagram w sid title content descr)) =
         [placeholder_request sid title content descr, image_request w pg title jpeg]
     \<and> (\<forall>r \<in> set (sends (fst (saveDiagram w sid title content descr))). verb r \<noteq> DELETE)\<close>
  by (simp add: snd_saveDiagram sends_saveDiagram split: sum.splits)

text \<open>Claim C6: the theorem at concrete worlds.\<close>

theorem patch_failure_leaves_placeholder_witness:
  \<open>snd (saveDiagram world_patch_fails ''sec-1'' ''Flow'' ''graph TD; A-->B'' []) =
     Inl (JsError ''Failed to save diagram: Service unavailable'')
   \<and> map verb (sends (fst (saveDiagram world_patch_fails ''sec-1'' ''Flow'' ''graph TD; A-->B'' []))) =
       [POST, PATCH]\<close>
proof -
  have a: \<open>snd (generateJpegFromMermaid world_patch_fails ''graph TD; A-->B'') = Inr ''JFIF''\<close>
    by (simp add: render_eval world_defs)
  have b: \<open>post_page world_patch_fails (placeholder_request ''sec-1'' ''Flow'' ''graph TD; A-->B'' []) =
      Inr \<lparr> page_id = ''pg-1'', page_title = ''Flow'' \<rparr>\<close>
    by (simp add: world_defs)
  have c: \<open>patch_page world_patch_fails
      (image_request world_patch_fails \<lparr> page_id = ''pg-1'', page_title = ''Flow'' \<rparr> ''Flow'' ''JFIF'') =
      Some (JsError ''Service unavailable'')\<close>
    by (simp add: world_defs)
  have d: \<open>stringify world_patch_fails (JsError ''Service unavailable'') = Inr ''{}''\<close>
    by (simp add: world_defs)
  from patch_failure_leaves_placeholder [OF a b c] show ?thesis by (simp add: d)
qed

text \<open>
  Claim C6 as stated fails in its outcome. A call whose PATCH was rejected has the very
  outcome of a call that sent no request at all, because closing the browser rejected with
  the same message: the outcome is no patch failure by type or by content. And when
  \<^verbatim>\<open>JSON.stringify\<close> of the rejection of the PATCH throws, the outcome carries the message of
  that error, not the one of the PATCH.
\<close>

theorem patch_failure_leaves_placeholder_counterexample:
  \<open>snd (saveDiagram world_patch_fails ''sec-1'' ''Flow'' ''graph TD; A-->B'' []) =
     Inl (JsError ''Failed to save diagram: Service unavailable'')
   \<and> map verb (sends (fst (saveDiagram world_patch_fails ''sec-1'' ''Flow'' ''graph TD; A-->B'' []))) =
       [POST, PATCH]
   \<and> snd (saveDiagram world_close_fails ''sec-1'' ''Flow'' ''graph TD; A-->B'' []) =
       Inl (JsError ''Failed to save diagram: Service unavailable'')
   \<and> sends (fst (saveDiagram world_close_fails ''sec-1'' ''Flow'' ''graph TD; A-->B'' [])) = []
   \<and> patch_page world_patch_circular
        (image_request world_patch_circular \<lparr> page_id = ''pg-1'', page_title = ''Flow'' \<rparr>
           ''Flow'' ''JFIF'') = Some (JsError ''Service unavailable'')
   \<and> snd (saveDiagram world_patch_circular ''sec-1'' ''Flow'' ''graph TD; A-->B'' []) =
       Inl (JsError ''Failed to save diagram: Converting circular structure to JSON'')
   \<and> map verb (sends (fst (saveDiagram world_patch_circular ''sec-1'' ''Flow'' ''graph TD; A-->B'' []))) =
       [POST, PATCH]\<close>
  by (simp add: snd_saveDiagram sends_saveDiagram render_eval world_defs)

text \<open>
  Claim C7. When the page was created, the trace of \<open>saveDiagram\<close> contains, between the
  POST that creates the page and the PATCH that attaches the image, a single timer of
  5000 ms, the reading of the clock and log entries; no request is sent to the store in
  between, and none before the POST or after the PATCH.
\<close>

theorem fixed_delay_between_create_and_patch:
  \<open>snd (generateJpegFromMermaid w content) = Inr jpeg \<Longrightarrow>
   post_page w (placeholder_request sid title content descr) = Inr pg \<Longrightarrow>
   \<exists>before after.
     fst (saveDiagram w sid title content descr) =
       before @
       [Send (placeholder_request sid title content descr),
        Log (''Created page with ID: '' @ page_id pg),
        SetTimeout 5000,
        DateNow,
        Log (''Multipart commands part:\<newline>'' @ commandsPart (boundary_of (date_now w)) title),
        Log (''Multipart image part headers:\<newline>'' @ imagePart (boundary_of (date_now w))),
        Log (''Multipart closing boundary:\<newline>'' @ closingBoundary (boundary_of (date_now w))),
        Send (image_request w pg title jpeg)] @ after
     \<and> sends before = [] \<and> sends after = []\<close>
proof -
  let ?before = \<open>fst (generateJpegFromMermaid w content) @
    [Log (''JPEG generated successfully in memory, size: '' @ show_nat (length jpeg) @ '' bytes'')]\<close>
  let ?after = \<open>case patch_page w (image_request w pg title jpeg) of
      None \<Rightarrow> [Log (''JPEG image successfully appended to page ID: '' @ page_id pg)]
    | Some e \<Rightarrow>
        (case stringify w e of
           Inl typeError \<Rightarrow> [Log (''Error in saveDiagram: '' @ message_or_string typeError)]
         | Inr json \<Rightarrow> [Log (''PATCH request failed: '' @ json),
                        Log (''Error in saveDiagram: '' @ message_or_string e)])\<close>
  assume a: "snd (generateJpegFromMermaid w content) = Inr jpeg"
    and b: "post_page w (placeholder_request sid title content descr) = Inr pg"
  have "fst (saveDiagram w sid title content descr) =
       ?before @
       [Send (placeholder_request sid title content descr),
        Log (''Created page with ID: '' @ page_id pg),
        SetTimeout 5000,
        DateNow,
        Log (''Multipart commands part:\<newline>'' @ commandsPart (boundary_of (date_now w)) title),
        Log (''Multipart image part headers:\<newline>'' @ imagePart (boundary_of (date_now w))),
        Log (''Multipart closing boundary:\<newline>'' @ closingBoundary (boundary_of (date_now w))),
        Send (image_request w pg title jpeg)] @ ?after"
    using a b by (simp add: fst_saveDiagram)
  moreover have "sends ?before = []"
    by (simp add: sends_append sends_render)
  moreover have "sends ?after = []"
    by (simp split: option.splits sum.splits)
  ultimately show ?thesis by blast
qed

text \<open>Claim C7: the theorem at concrete worlds.\<close>

theorem fixed_delay_between_create_and_patch_witness:
  \<open>\<exists>before after.
     fst (saveDiagram world_ok ''sec-1'' ''Flow'' ''graph TD; A-->B'' []) =
       before @
       [Send (placeholder_request ''sec-1'' ''Flow'' ''graph TD; A-->B'' []),
        Log ''Created page with ID: pg-1'',
        SetTimeout 5000,
        DateNow,
        Log (''Multipart commands part:\<newline>'' @ commandsPart (boundary_of 5) ''Flow''),
        Log (''Multipart image part headers:\<newline>'' @ imagePart (boundary_of 5)),
        Log (''Multipart closing boundary:\<newline>'' @ closingBoundary (boundary_of 5)),
        Send (patch_request ''pg-1'' (boundary_of 5) (multipartBuffer (boundary_of 5) ''Flow'' ''JFIF''))] @ after
     \<and> sends before = [] \<and> sends after = []\<close>
proof -
  have a: \<open>snd (generateJpegFromMermaid world_ok ''graph TD; A-->B'') = Inr ''JFIF''\<close>
    by (simp add: render_eval world_defs)
  have b: \<open>post_page world_ok (placeholder_request ''sec-1'' ''Flow'' ''graph TD; A-->B'' []) =
      Inr \<lparr> page_id = ''pg-1'', page_title = ''Flow'' \<rparr>\<close>
    by (simp add: world_defs)
  have c: "date_now world_ok = 5"
    by (simp add: world_defs)
  from fixed_delay_between_create_and_patch [OF a b] show ?thesis by (simp add: c)
qed

section \<open>Failure reporting, the handler and the boundary token\<close>

lemma render_one_launch: "count_list (fst (generateJpegFromMermaid w c)) Launch \<le> 1"
  by (simp add: fst_render render_try_one_launch split: option.splits sum.splits)

lemma saveDiagram_one_launch:
  "count_list (fst (saveDiagram w sid title content descr)) Launch \<le> 1"
  using render_one_launch [of w content]
  by (simp add: fst_saveDiagram split: option.splits sum.splits)

text \<open>
  Claim C8, as amended. Every failure of \<open>saveDiagram\<close> is reported as one thrown
  \<^verbatim>\<open>Error\<close> whose message is \<^verbatim>\<open>Failed to save diagram: \<close> followed by the message of
  what the first failing stage threw: the render if it failed; else the POST, which was
  then the only request sent; else the PATCH, sent after the POST, or, when
  \<^verbatim>\<open>JSON.stringify\<close> of what the PATCH threw itself throws while the failure is logged, what
  \<^verbatim>\<open>JSON.stringify\<close> threw. The outcome carries no marker of the stage. Nothing is retried:
  the browser is launched at most once, and at most one POST and one PATCH are sent.
\<close>

theorem failure_reports_wrapped_cause_once:
  \<open>snd (saveDiagram w sid title content descr) =
     (case snd (generateJpegFromMermaid w content) of
        Inl e \<Rightarrow> Inl (save_error e)
      | Inr jpeg \<Rightarrow>
          (case post_page w (placeholder_request sid title content descr) of
             Inl e \<Rightarrow> Inl (save_error e)
           | Inr pg \<Rightarrow>
               (case patch_page w (image_request w pg title jpeg) of
                  None \<Rightarrow> Inr pg
                | Some e \<Rightarrow>
                    (case stringify w e of
                       Inl typeError \<Rightarrow> Inl (save_error typeError)
                     | Inr json \<Rightarrow> Inl (save_error e)))))
   \<and> sends (fst (saveDiagram w sid title content descr)) =
     (case snd (generateJpegFromMermaid w content) of
        Inl e \<Rightarrow> []
      | Inr jpeg \<Rightarrow>
          (case post_page w (placeholder_request sid title content descr) of
             Inl e \<Rightarrow> [placeholder_request sid title content descr]
           | Inr pg \<Rightarrow>
               [placeholder_request sid title content descr, image_request w pg title jpeg]))
   \<and> count_list (fst (saveDiagram w sid title content descr)) Launch \<le> 1
   \<and> length (filter (\<lambda>r. verb r = POST) (sends (fst (saveDiagram w sid title content descr)))) \<le> 1
   \<and> length (filter (\<lambda>r. verb r = PATCH) (sends (fst (saveDiagram w sid title content descr)))) \<le> 1\<close>
proof (intro conjI)
  show \<open>snd (saveDiagram w sid title content descr) =
     (case snd (generateJpegFromMermaid w content) of
        Inl e \<Rightarrow> Inl (save_error e)
      | Inr jpeg \<Rightarrow>
          (case post_page w (placeholder_request sid title content descr) of
             Inl e \<Rightarrow> Inl (save_error e)
           | Inr pg \<Rightarrow>
               (case patch_page w (image_request w pg title jpeg) of
                  None \<Rightarrow> Inr pg
                | Some e \<Rightarrow>
                    (case stringify w e of
                       Inl typeError \<Rightarrow> Inl (save_error typeError)
                     | Inr json \<Rightarrow> Inl (save_error e)))))\<close>
    by (simp add: snd_saveDiagram split: sum.splits option.splits)
next
  show \<open>sends (fst (saveDiagram w sid title content descr)) =
     (case snd (generateJpegFromMermaid w content) of
        Inl e \<Rightarrow> []
      | Inr jpeg \<Rightarrow>
          (case post_page w (placeholder_request sid title content descr) of
             Inl e \<Rightarrow> [placeholder_request sid title content descr]
           | Inr pg \<Rightarrow>
               [placeholder_request sid title content descr, image_request w pg title jpeg]))\<close>
    by (rule sends_saveDiagram)
next
  show "count_list (fst (saveDiagram w sid title content descr)) Launch \<le> 1"
    by (rule saveDiagram_one_launch)
next
  show "length (filter (\<lambda>r. verb r = POST) (sends (fst (saveDiagram w sid title content descr)))) \<le> 1"
    by (simp add: sends_saveDiagram split: sum.splits)
next
  show "length (filter (\<lambda>r. verb r = PATCH) (sends (fst (saveDiagram w sid title content descr)))) \<le> 1"
    by (simp add: sends_saveDiagram split: sum.splits)
qed

text \<open>Claim C8: the theorem at concrete worlds.\<close>

theorem failure_reports_wrapped_cause_once_witness:
  \<open>snd (saveDiagram world_timeout ''sec-1'' ''Flow'' ''graph TD; A-->B'' []) =
     Inl (JsError ''Failed to save diagram: Failed to convert Mermaid diagram to JPEG: Waiting failed: 5000ms exceeded'')
   \<and> sends (fst (saveDiagram world_timeout ''sec-1'' ''Flow'' ''graph TD; A-->B'' [])) = []
   \<and> snd (saveDiagram world_create_fails ''sec-1'' ''Flow'' ''graph TD; A-->B'' []) =
     Inl (JsError ''Failed to save diagram: Service unavailable'')
   \<and> map verb (sends (fst (saveDiagram world_create_fails ''sec-1'' ''Flow'' ''graph TD; A-->B'' []))) = [POST]
   \<and> snd (saveDiagram world_patch_circular ''sec-1'' ''Flow'' ''graph TD; A-->B'' []) =
     Inl (JsError ''Failed to save diagram: Converting circular structure to JSON'')
   \<and> map verb (sends (fst (saveDiagram world_patch_circular ''sec-1'' ''Flow'' ''graph TD; A-->B'' []))) =
       [POST, PATCH]
   \<and> snd (saveDiagram world_ok ''sec-1'' ''Flow'' ''graph TD; A-->B'' []) =
     Inr \<lparr> page_id = ''pg-1'', page_title = ''Flow'' \<rparr>\<close>
proof -
  have r: \<open>snd (generateJpegFromMermaid world_timeout ''graph TD; A-->B'') =
      Inl (JsError ''Failed to convert Mermaid diagram to JPEG: Waiting failed: 5000ms exceeded'')\<close>
    \<open>snd (generateJpegFromMermaid world_create_fails ''graph TD; A-->B'') = Inr ''JFIF''\<close>
    \<open>snd (generateJpegFromMermaid world_patch_circular ''graph TD; A-->B'') = Inr ''JFIF''\<close>
    \<open>snd (generateJpegFromMermaid world_ok ''graph TD; A-->B'') = Inr ''JFIF''\<close>
    by (simp_all add: render_eval world_defs)
  have f: \<open>post_page world_create_fails x = Inl (JsError ''Service unavailable'')\<close>
    \<open>post_page world_patch_circular x = Inr \<lparr> page_id = ''pg-1'', page_title = ''Flow'' \<rparr>\<close>
    \<open>patch_page world_patch_circular x = Some (JsError ''Service unavailable'')\<close>
    \<open>stringify world_patch_circular e = Inl (JsError ''Converting circular structure to JSON'')\<close>
    \<open>post_page world_ok x = Inr \<lparr> page_id = ''pg-1'', page_title = ''Flow'' \<rparr>\<close>
    \<open>patch_page world_ok x = None\<close> for x e
    by (simp_all add: world_defs)
  from failure_reports_wrapped_cause_once [of world_timeout "''sec-1''" "''Flow''" "''graph TD; A-->B''" "[]", unfolded r]
    failure_reports_wrapped_cause_once [of world_create_fails "''sec-1''" "''Flow''" "''graph TD; A-->B''" "[]", unfolded r]
    failure_reports_wrapped_cause_once [of world_patch_circular "''sec-1''" "''Flow''" "''graph TD; A-->B''" "[]", unfolded r]
    failure_reports_wrapped_cause_once [of world_ok "''sec-1''" "''Flow''" "''graph TD; A-->B''" "[]", unfolded r]
  show ?thesis by (simp add: f)
qed

text \<open>
  Claim C8 as stated fails: the outcome does not carry the originating stage. A rejection
  of the POST (creation) and a rejection of the PATCH (image attachment) with the same
  message give the same outcome.
\<close>

theorem failure_reports_wrapped_cause_once_counterexample:
  \<open>snd (saveDiagram world_create_fails ''sec-1'' ''Flow'' ''graph TD; A-->B'' []) =
     snd (saveDiagram world_patch_fails ''sec-1'' ''Flow'' ''graph TD; A-->B'' [])
   \<and> map verb (sends (fst (saveDiagram world_create_fails ''sec-1'' ''Flow'' ''graph TD; A-->B'' []))) = [POST]
   \<and> map verb (sends (fst (saveDiagram world_patch_fails ''sec-1'' ''Flow'' ''graph TD; A-->B'' []))) = [POST, PATCH]\<close>
  by (simp add: snd_saveDiagram sends_saveDiagram render_eval world_defs)

lemma fst_getNotebooks: "fst (getNotebooks w) = [Send notebooks_request]"
  by (simp add: getNotebooks_def)

lemma fst_getSections: "fst (getSections w i) = [Send (sections_request i)]"
  by (simp add: getSections_def)

text \<open>
  Claim C10. For a \<^verbatim>\<open>save_diagram\<close> call the handler looks the notebook up by equality of
  \<^verbatim>\<open>displayName\<close> in the notebook list, then the section in the list of that notebook. If
  the notebook is not found, the result has \<^verbatim>\<open>isError\<close> true and the only event is the GET
  of the notebooks; if the section is not found, the result has \<^verbatim>\<open>isError\<close> true and the
  only events are the two GET requests: no render, no POST, no PATCH. If both are found,
  \<open>saveDiagram\<close> runs on the identifier of the section found.
\<close>

theorem handler_resolves_names_before_publishing:
  \<open>(\<forall>nbs. snd (getNotebooks w) = Inr nbs \<and> find (\<lambda>nb. displayName nb = nbName) nbs = None \<longrightarrow>
      (\<exists>r. snd (call_tool_diagram w ''save_diagram'' title content nbName secName descr) = Inr r \<and> isError r)
      \<and> fst (call_tool_diagram w ''save_diagram'' title content nbName secName descr) =
          [Send notebooks_request])
   \<and> (\<forall>nbs nb secs. snd (getNotebooks w) = Inr nbs \<and>
         find (\<lambda>nb. displayName nb = nbName) nbs = Some nb \<and>
         snd (getSections w (entity_id nb)) = Inr secs \<and>
         find (\<lambda>s. displayName s = secName) secs = None \<longrightarrow>
      (\<exists>r. snd (call_tool_diagram w ''save_diagram'' title content nbName secName descr) = Inr r \<and> isError r)
      \<and> fst (call_tool_diagram w ''save_diagram'' title content nbName secName descr) =
          [Send notebooks_request, Send (sections_request (entity_id nb))])
   \<and> (\<forall>nbs nb secs sec. snd (getNotebooks w) = Inr nbs \<and>
         find (\<lambda>nb. displayName nb = nbName) nbs = Some nb \<and>
         snd (getSections w (entity_id nb)) = Inr secs \<and>
         find (\<lambda>s. displayName s = secName) secs = Some sec \<longrightarrow>
      fst (call_tool_diagram w ''save_diagram'' title content nbName secName descr) =
          [Send notebooks_request, Send (sections_request (entity_id nb))] @
          fst (saveDiagram w (entity_id sec) title content (case descr of None \<Rightarrow> [] | Some d \<Rightarrow> d)))
   \<and> verb notebooks_request = GET \<and> (\<forall>i. verb (sections_request i) = GET)\<close>
proof (intro conjI allI impI)
  fix nbs
  assume a: "snd (getNotebooks w) = Inr nbs \<and> find (\<lambda>nb. displayName nb = nbName) nbs = None"
  then have "\<exists>e. snd (diagram_try w title content nbName secName (case descr of None \<Rightarrow> [] | Some d \<Rightarrow> d)) = Inl e"
    by (simp add: diagram_try_def io_simps)
  then show "\<exists>r. snd (call_tool_diagram w ''save_diagram'' title content nbName secName descr) = Inr r \<and> isError r"
    by (auto simp: call_tool_diagram_def dest: isError_diagram_catch)
  from a show "fst (call_tool_diagram w ''save_diagram'' title content nbName secName descr) =
          [Send notebooks_request]"
    by (simp add: call_tool_diagram_def diagram_try_def io_simps fst_getNotebooks)
next
  fix nbs nb secs
  assume a: "snd (getNotebooks w) = Inr nbs \<and>
         find (\<lambda>nb. displayName nb = nbName) nbs = Some nb \<and>
         snd (getSections w (entity_id nb)) = Inr secs \<and>
         find (\<lambda>s. displayName s = secName) secs = None"
  then have "\<exists>e. snd (diagram_try w title content nbName secName (case descr of None \<Rightarrow> [] | Some d \<Rightarrow> d)) = Inl e"
    by (simp add: diagram_try_def io_simps)
  then show "\<exists>r. snd (call_tool_diagram w ''save_diagram'' title content nbName secName descr) = Inr r \<and> isError r"
    by (auto simp: call_tool_diagram_def dest: isError_diagram_catch)
  from a show "fst (call_tool_diagram w ''save_diagram'' title content nbName secName descr) =
          [Send notebooks_request, Send (sections_request (entity_id nb))]"
    by (simp add: call_tool_diagram_def diagram_try_def io_simps fst_getNotebooks fst_getSections)
next
  fix nbs nb secs sec
  assume a: "snd (getNotebooks w) = Inr nbs \<and>
         find (\<lambda>nb. displayName nb = nbName) nbs = Some nb \<and>
         snd (getSections w (entity_id nb)) = Inr secs \<and>
         find (\<lambda>s. displayName s = secName) secs = Some sec"
  then show "fst (call_tool_diagram w ''save_diagram'' title content nbName secName descr) =
          [Send notebooks_request, Send (sections_request (entity_id nb))] @
          fst (saveDiagram w (entity_id sec) title content (case descr of None \<Rightarrow> [] | Some d \<Rightarrow> d))"
    by (simp add: call_tool_diagram_def diagram_try_def io_simps fst_getNotebooks fst_getSections
             split: sum.splits)
qed (simp_all add: notebooks_request_def sections_request_def)

text \<open>Claim C10: the theorem at concrete worlds.\<close>

theorem handler_resolves_names_before_publishing_witness:
  \<open>(\<exists>r. snd (call_tool_diagram world_ok ''save_diagram'' ''Flow'' ''graph TD; A-->B''
               ''Personal'' ''Architecture'' None) = Inr r \<and> isError r)
   \<and> fst (call_tool_diagram world_ok ''save_diagram'' ''Flow'' ''graph TD; A-->B''
               ''Personal'' ''Architecture'' None) = [Send notebooks_request]
   \<and> (\<exists>r. snd (call_tool_diagram world_ok ''save_diagram'' ''Flow'' ''graph TD; A-->B''
               ''Work'' ''Drafts'' None) = Inr r \<and> isError r)
   \<and> fst (call_tool_diagram world_ok ''save_diagram'' ''Flow'' ''graph TD; A-->B''
               ''Work'' ''Drafts'' None) = [Send notebooks_request, Send (sections_request ''nb-1'')]
   \<and> fst (call_tool_diagram world_ok ''save_diagram'' ''Flow'' ''graph TD; A-->B''
               ''Work'' ''Architecture'' None) =
       [Send notebooks_request, Send (sections_request ''nb-1'')] @
       fst (saveDiagram world_ok ''sec-1'' ''Flow'' ''graph TD; A-->B'' [])\<close>
proof -
  have nb: \<open>snd (getNotebooks world_ok) = Inr [\<lparr> entity_id = ''nb-1'', displayName = ''Work'' \<rparr>]\<close>
    by (simp add: getNotebooks_def notebooks_request_def world_defs)
  have sec: \<open>snd (getSections world_ok ''nb-1'') =
      Inr [\<lparr> entity_id = ''sec-1'', displayName = ''Architecture'' \<rparr>]\<close>
    by (simp add: getSections_def sections_request_def world_defs)
  from nb sec
    handler_resolves_names_before_publishing [of world_ok "''Personal''" "''Flow''" "''graph TD; A-->B''" "''Architecture''" None]
    handler_resolves_names_before_publishing [of world_ok "''Work''" "''Flow''" "''graph TD; A-->B''" "''Drafts''" None]
    handler_resolves_names_before_publishing [of world_ok "''Work''" "''Flow''" "''graph TD; A-->B''" "''Architecture''" None]
  show ?thesis by simp
qed

lemma digit_value_digit_char: "d < 10 \<Longrightarrow> digit_value (digit_char d) = d"
proof -
  assume "d < 10"
  then have "d = 0 \<or> d = 1 \<or> d = 2 \<or> d = 3 \<or> d = 4 \<or> d = 5 \<or> d = 6 \<or> d = 7 \<or> d = 8 \<or> d = 9"
    by arith
  then show ?thesis
    by (elim disjE) (simp_all add: digit_value_def digit_char_def)
qed

lemma read_nat_snoc: "read_nat (s @ [c]) = 10 * read_nat s + digit_value c"
  by (simp add: read_nat_def)

lemma read_show_nat: "read_nat (show_nat n) = n"
proof (induction n rule: show_nat.induct)
  case (1 n)
  show ?case
  proof (cases "n < 10")
    case True
    then show ?thesis
      by (subst show_nat.simps) (simp add: read_nat_def digit_value_digit_char)
  next
    case False
    with 1 have "read_nat (show_nat (n div 10)) = n div 10" by simp
    with False show ?thesis
      by (subst show_nat.simps) (simp add: read_nat_snoc digit_value_digit_char)
  qed
qed

lemma show_nat_inj: "show_nat m = show_nat n \<Longrightarrow> m = n"
  by (metis read_show_nat)

lemma boundary_of_inj: "boundary_of s = boundary_of t \<longleftrightarrow> s = t"
  by (auto simp: boundary_of_def dest: show_nat_inj)

text \<open>
  Claim C3, as amended. The boundary token is \<^verbatim>\<open>PartBoundary\<close> followed by the decimal
  reading of the clock and nothing else: the tokens (and the Content-Type headers) of two
  PATCH requests are equal exactly when the two readings of \<^verbatim>\<open>Date.now()\<close> are equal.
\<close>

theorem boundary_token_determined_by_clock:
  "headers (image_request w1 pg1 title1 jpeg1) = headers (image_request w2 pg2 title2 jpeg2)
     \<longleftrightarrow> date_now w1 = date_now w2"
  by (simp add: patch_request_def boundary_of_inj)

lemma show_nat_5: "show_nat 5 = ''5''"
  by (subst show_nat.simps) (simp add: digit_char_def)

text \<open>
  Claim C3 as stated fails: two publish calls (different worlds, sections, titles and
  markup) that read the same time send the same boundary token.
\<close>

theorem boundary_token_determined_by_clock_counterexample:
  \<open>date_now world_ok = date_now world_patch_fails \<and>
   map headers (filter (\<lambda>r. verb r = PATCH)
     (sends (fst (saveDiagram world_ok ''sec-1'' ''Flow'' ''graph TD; A-->B'' [])))) =
     [[(''Content-Type'', ''multipart/form-data; boundary=PartBoundary5'')]] \<and>
   map headers (filter (\<lambda>r. verb r = PATCH)
     (sends (fst (saveDiagram world_patch_fails ''sec-2'' ''Other'' ''graph LR; X-->Y'' ''notes'')))) =
     [[(''Content-Type'', ''multipart/form-data; boundary=PartBoundary5'')]]\<close>
  by (simp add: sends_saveDiagram render_eval world_defs patch_request_def create_request_def
        boundary_of_def show_nat_5)

section \<open>The placeholder page and the command\<close>

lemma hex_value_hex_char: "k < 16 \<Longrightarrow> hex_value (hex_char k) = Some k"
proof -
  assume "k < 16"
  then have "k = 0 \<or> k = 1 \<or> k = 2 \<or> k = 3 \<or> k = 4 \<or> k = 5 \<or> k = 6 \<or> k = 7 \<or>
      k = 8 \<or> k = 9 \<or> k = 10 \<or> k = 11 \<or> k = 12 \<or> k = 13 \<or> k = 14 \<or> k = 15"
    by arith
  then show ?thesis
    by (elim disjE) (simp_all add: hex_value_def hex_char_def)
qed

lemma hex4_escape:
  assumes "(of_char c :: nat) < 32"
  shows "hex4 (CHR ''0'') (CHR ''0'') (hex_char ((of_char c :: nat) div 16))
           (hex_char ((of_char c :: nat) mod 16)) = Some (of_char c)"
proof -
  from assms have "(of_char c :: nat) div 16 < 16" by arith
  then have a: "hex_value (hex_char ((of_char c :: nat) div 16)) = Some ((of_char c :: nat) div 16)"
    by (rule hex_value_hex_char)
  have b: "hex_value (hex_char ((of_char c :: nat) mod 16)) = Some ((of_char c :: nat) mod 16)"
    by (rule hex_value_hex_char) simp
  have z: "hex_value (CHR ''0'') = Some 0"
    by (simp add: hex_value_def)
  show ?thesis
    by (simp add: hex4_def a b z)
qed

lemma json_unescape_plain:
  "c \<noteq> CHR 0x5C \<Longrightarrow> c \<noteq> CHR 0x22 \<Longrightarrow> \<not> (of_char c :: nat) < 32 \<Longrightarrow>
   json_unescape (c # rest) = map_option (Cons c) (json_unescape rest)"
  by (cases rest) simp_all

lemma json_unescape_escape:
  "json_unescape (json_escape_char c @ rest) = map_option (Cons c) (json_unescape rest)"
proof (cases "c \<in> {CHR 0x22, CHR 0x5C, CHR 0x08, CHR 0x0C, CHR 0x0A, CHR 0x0D, CHR 0x09}")
  case True
  then show ?thesis
    by (auto simp: json_escape_char_def simple_escape_def)
next
  case False
  show ?thesis
  proof (cases "(of_char c :: nat) < 32")
    case True
    then have "(of_char c :: nat) < 128" by simp
    with True False hex4_escape [OF True] show ?thesis
      by (simp add: json_escape_char_def)
  next
    case ge: False
    with False have "json_escape_char c = [c]"
      by (simp add: json_escape_char_def)
    with False ge show ?thesis
      by (simp add: json_unescape_plain)
  qed
qed

lemma json_unescape_concat:
  "json_unescape (concat (map json_escape_char s)) = Some s"
  by (induction s) (simp_all add: json_unescape_escape)

lemma json_unquote_quote: "json_unquote (json_quote s) = Some s"
  by (simp add: json_unquote_def json_quote_def json_unescape_concat)

lemma json_commands:
  \<open>json_stringify (commands title) =
     ''[{"target":"body","action":"append","content":'' @ json_quote (img_tag title) @ ''}]''\<close>
  by (simp add: commands_def json_quote_def json_escape_char_def)

text \<open>
  Claim C9. The title is interpolated as it is, with no HTML or attribute escaping: the
  body of the POST that creates the page contains it in the \<^verbatim>\<open><title>\<close> element and in
  the text of the \<^verbatim>\<open><div>\<close>, and the \<^verbatim>\<open>content\<close> string of the command, which
  \<^verbatim>\<open>JSON.stringify\<close> serialises into the Commands part of the PATCH body, contains it
  between the quotes of the \<^verbatim>\<open>alt\<close> attribute. This holds for every title, also one with
  a double quote or \<^verbatim>\<open><\<close>. The serialisation writes that string as a JSON string literal, and
  reading the literal back gives the same string: the store receives the title unchanged.
\<close>

theorem title_interpolated_verbatim:
  \<open>(\<forall>jpeg. snd (generateJpegFromMermaid w content) = Inr jpeg \<longrightarrow>
      Send \<lparr> verb = POST, path = ''/me/onenote/sections/'' @ sid @ ''/pages'', select = None,
             headers = [(''Content-Type'', ''application/xhtml+xml'')],
             body = ''<!DOCTYPE html><html><head><title>'' @ title @
                    ''</title></head><body><div># '' @ title @ ''\<newline>          '' @ descr @
                    ''\<newline>\<newline>          ## Diagram Source (Mermaid)\<newline>          ```\<newline>          '' @
                    content @ ''\<newline>          ```\<newline>          </div></body></html>'' \<rparr>
        \<in> set (fst (saveDiagram w sid title content descr)))
   \<and> (\<forall>jpeg pg. snd (generateJpegFromMermaid w content) = Inr jpeg \<and>
         post_page w (placeholder_request sid title content descr) = Inr pg \<longrightarrow>
      (\<exists>r \<in> set (sends (fst (saveDiagram w sid title content descr))).
         verb r = PATCH \<and>
         body r =
           ''--'' @ boundary_of (date_now w) @ CRLF @
           ''Content-Disposition: form-data; name="Commands"'' @ CRLF @
           ''Content-Type: application/json'' @ CRLF @ CRLF @
           json_stringify (JArray [JObject
             [(''target'', JString ''body''), (''action'', JString ''append''),
              (''content'', JString (''<img src="name:diagramImage" alt="'' @ title @
                                     ''" data-src-type="image/jpeg"/>''))]]) @ CRLF @
           imagePart (boundary_of (date_now w)) @ jpeg @ closingBoundary (boundary_of (date_now w))))
   \<and> (\<exists>lit. json_stringify (JArray [JObject
             [(''target'', JString ''body''), (''action'', JString ''append''),
              (''content'', JString (''<img src="name:diagramImage" alt="'' @ title @
                                     ''" data-src-type="image/jpeg"/>''))]]) =
              ''[{"target":"body","action":"append","content":'' @ lit @ ''}]''
         \<and> json_unquote lit =
              Some (''<img src="name:diagramImage" alt="'' @ title @
                    ''" data-src-type="image/jpeg"/>''))\<close>
proof (intro conjI allI impI)
  fix jpeg assume "snd (generateJpegFromMermaid w content) = Inr jpeg"
  then have "Send (placeholder_request sid title content descr) \<in> set (fst (saveDiagram w sid title content descr))"
    by (simp add: fst_saveDiagram)
  moreover have \<open>placeholder_request sid title content descr =
      \<lparr> verb = POST, path = ''/me/onenote/sections/'' @ sid @ ''/pages'', select = None,
             headers = [(''Content-Type'', ''application/xhtml+xml'')],
             body = ''<!DOCTYPE html><html><head><title>'' @ title @
                    ''</title></head><body><div># '' @ title @ ''\<newline>          '' @ descr @
                    ''\<newline>\<newline>          ## Diagram Source (Mermaid)\<newline>          ```\<newline>          '' @
                    content @ ''\<newline>          ```\<newline>          </div></body></html>'' \<rparr>\<close>
    by (cases "descr = []") (simp_all add: create_request_def page_html_def text_content_def)
  ultimately show \<open>Send \<lparr> verb = POST, path = ''/me/onenote/sections/'' @ sid @ ''/pages'', select = None,
             headers = [(''Content-Type'', ''application/xhtml+xml'')],
             body = ''<!DOCTYPE html><html><head><title>'' @ title @
                    ''</title></head><body><div># '' @ title @ ''\<newline>          '' @ descr @
                    ''\<newline>\<newline>          ## Diagram Source (Mermaid)\<newline>          ```\<newline>          '' @
                    content @ ''\<newline>          ```\<newline>          </div></body></html>'' \<rparr>
        \<in> set (fst (saveDiagram w sid title content descr))\<close>
    by (simp only:)
next
  fix jpeg pg
  assume a: "snd (generateJpegFromMermaid w content) = Inr jpeg \<and>
         post_page w (placeholder_request sid title content descr) = Inr pg"
  have "body (image_request w pg title jpeg) =
           ''--'' @ boundary_of (date_now w) @ CRLF @
           ''Content-Disposition: form-data; name=\"Commands\"'' @ CRLF @
           ''Content-Type: application/json'' @ CRLF @ CRLF @
           json_stringify (JArray [JObject
             [(''target'', JString ''body''), (''action'', JString ''append''),
              (''content'', JString (''<img src=\"name:diagramImage\" alt=\"'' @ title @
                                     ''\" data-src-type=\"image/jpeg\"/>''))]]) @ CRLF @
           imagePart (boundary_of (date_now w)) @ jpeg @ closingBoundary (boundary_of (date_now w))"
    by (simp add: patch_request_def multipartBuffer_def commandsPart_def commands_def img_tag_def)
  moreover have "image_request w pg title jpeg \<in> set (sends (fst (saveDiagram w sid title content descr)))"
    using a by (simp add: sends_saveDiagram)
  ultimately show \<open>\<exists>r \<in> set (sends (fst (saveDiagram w sid title content descr))).
         verb r = PATCH \<and>
         body r =
           ''--'' @ boundary_of (date_now w) @ CRLF @
           ''Content-Disposition: form-data; name="Commands"'' @ CRLF @
           ''Content-Type: application/json'' @ CRLF @ CRLF @
           json_stringify (JArray [JObject
             [(''target'', JString ''body''), (''action'', JString ''append''),
              (''content'', JString (''<img src="name:diagramImage" alt="'' @ title @
                                     ''" data-src-type="image/jpeg"/>''))]]) @ CRLF @
           imagePart (boundary_of (date_now w)) @ jpeg @ closingBoundary (boundary_of (date_now w))\<close>
    using verb_patch_request by blast
next
  show \<open>\<exists>lit. json_stringify (JArray [JObject
             [(''target'', JString ''body''), (''action'', JString ''append''),
              (''content'', JString (''<img src="name:diagramImage" alt="'' @ title @
                                     ''" data-src-type="image/jpeg"/>''))]]) =
              ''[{"target":"body","action":"append","content":'' @ lit @ ''}]''
         \<and> json_unquote lit =
              Some (''<img src="name:diagramImage" alt="'' @ title @
                    ''" data-src-type="image/jpeg"/>'')\<close>
    using json_commands [of title] json_unquote_quote [of "img_tag title"]
    unfolding commands_def img_tag_def by blast
qed

text \<open>Claim C9: the theorem at a title with a double quote and angle brackets.\<close>

theorem title_interpolated_verbatim_witness:
  \<open>Send \<lparr> verb = POST, path = ''/me/onenote/sections/sec-1/pages'', select = None,
          headers = [(''Content-Type'', ''application/xhtml+xml'')],
          body = ''<!DOCTYPE html><html><head><title>a"<b></title></head><body><div># a"<b>\<newline>          \<newline>\<newline>          ## Diagram Source (Mermaid)\<newline>          ```\<newline>          graph TD; A-->B\<newline>          ```\<newline>          </div></body></html>'' \<rparr>
     \<in> set (fst (saveDiagram world_ok ''sec-1'' ''a"<b>'' ''graph TD; A-->B'' []))
   \<and> (\<exists>r \<in> set (sends (fst (saveDiagram world_ok ''sec-1'' ''a"<b>'' ''graph TD; A-->B'' []))).
         verb r = PATCH \<and>
         body r =
           ''--PartBoundary5'' @ CRLF @
           ''Content-Disposition: form-data; name="Commands"'' @ CRLF @
           ''Content-Type: application/json'' @ CRLF @ CRLF @
           json_stringify (JArray [JObject
             [(''target'', JString ''body''), (''action'', JString ''append''),
              (''content'', JString ''<img src="name:diagramImage" alt="a"<b>" data-src-type="image/jpeg"/>'')]]) @ CRLF @
           imagePart ''PartBoundary5'' @ ''JFIF'' @ closingBoundary ''PartBoundary5'')\<close>
proof -
  have a: \<open>snd (generateJpegFromMermaid world_ok ''graph TD; A-->B'') = Inr ''JFIF''\<close>
    by (simp add: render_eval world_defs)
  have b: \<open>post_page world_ok (placeholder_request ''sec-1'' ''a"<b>'' ''graph TD; A-->B'' []) =
      Inr \<lparr> page_id = ''pg-1'', page_title = ''Flow'' \<rparr>\<close>
    by (simp add: world_defs)
  have t: "boundary_of (date_now world_ok) = ''PartBoundary5''"
    by (simp add: world_defs boundary_of_5)
  from title_interpolated_verbatim [of world_ok "''graph TD; A-->B''" "''sec-1''" \<open>''a"<b>''\<close> "[]"] a b
  show ?thesis
    unfolding t by simp
qed

section \<open>The multipart body\<close>

declare split_parts.simps [simp del]

lemma prefix_before_char:
  assumes "prefix xs (ys @ c # zs)" and "c \<notin> set xs"
  shows "prefix xs ys"
proof -
  from assms(1) consider "prefix xs ys" | us where "xs = ys @ us" "prefix us (c # zs)"
    by (auto simp: prefix_append)
  then show ?thesis
  proof cases
    case 1
    then show ?thesis .
  next
    case 2
    with assms(2) have "us = []"
      by (cases us) auto
    with 2 show ?thesis by simp
  qed
qed

lemma prefix_within:
  assumes "prefix (x # xs) (ys @ c # zs)" and "c \<notin> set xs" and "ys \<noteq> []"
  shows "prefix (x # xs) ys"
proof -
  from assms(1) consider "prefix (x # xs) ys" | us where "x # xs = ys @ us" "prefix us (c # zs)"
    by (auto simp: prefix_append)
  then show ?thesis
  proof cases
    case 1
    then show ?thesis .
  next
    case 2
    from 2(1) assms(3) obtain ys' where "ys = x # ys'" "xs = ys' @ us"
      by (cases ys) auto
    with assms(2) 2(2) have "us = []"
      by (cases us) auto
    with 2 show ?thesis by simp
  qed
qed

lemma find_delimiter_next:
  "d \<noteq> [] \<Longrightarrow> find_delimiter d (d @ CRLF @ r) = Some ([], False, r)"
  by (cases d) (simp_all add: CRLF_def)

lemma find_delimiter_close:
  "d \<noteq> [] \<Longrightarrow> find_delimiter d (d @ ''--'' @ r) = Some ([], True, r)"
  by (cases d) (simp_all add: CRLF_def)

lemma find_delimiter_step:
  "find_delimiter d cs = Some (p, f, r) \<Longrightarrow> \<not> prefix d (c # cs) \<Longrightarrow>
   find_delimiter d (c # cs) = Some (c # p, f, r)"
  by (auto dest: append_prefixD)

lemma find_delimiter_skip:
  "find_delimiter (x # d) ys = Some (p, f, r) \<Longrightarrow> x \<notin> set xs \<Longrightarrow>
   find_delimiter (x # d) (xs @ ys) = Some (xs @ p, f, r)"
proof (induction xs)
  case Nil
  then show ?case by simp
next
  case (Cons a xs)
  then have "find_delimiter (x # d) (xs @ ys) = Some (xs @ p, f, r)" by simp
  moreover from Cons.prems have "\<not> prefix (x # d) (a # xs @ ys)" by auto
  ultimately show ?case
    using find_delimiter_step [of "x # d" "xs @ ys" "xs @ p" f r a] by simp
qed

lemma find_delimiter_skip_CRLF:
  assumes "find_delimiter (CRLF @ db) ys = Some (p, f, r)" and "\<not> prefix db ys"
  shows "find_delimiter (CRLF @ db) (CRLF @ ys) = Some (CRLF @ p, f, r)"
proof -
  have "\<not> prefix (CRLF @ db) (CHR 0x0A # ys)"
    by (simp add: CRLF_def)
  with assms(1) have "find_delimiter (CRLF @ db) (CHR 0x0A # ys) = Some (CHR 0x0A # p, f, r)"
    by (rule find_delimiter_step)
  moreover from assms(2) have "\<not> prefix (CRLF @ db) (CHR 0x0D # CHR 0x0A # ys)"
    by (simp add: CRLF_def)
  ultimately have "find_delimiter (CRLF @ db) (CHR 0x0D # CHR 0x0A # ys) = Some (CHR 0x0D # CHR 0x0A # p, f, r)"
    by (rule find_delimiter_step)
  then show ?thesis by (simp add: CRLF_def)
qed

lemma find_delimiter_content:
  assumes "CHR 0x0D \<notin> set db"
  shows "\<not> sublist (CRLF @ db) content \<Longrightarrow>
         find_delimiter (CRLF @ db) (content @ CRLF @ db @ ''--'' @ rest) = Some (content, True, rest)"
proof (induction content)
  case Nil
  have "find_delimiter (CRLF @ db) ((CRLF @ db) @ ''--'' @ rest) = Some ([], True, rest)"
    by (rule find_delimiter_close) (simp add: CRLF_def)
  then show ?case by simp
next
  case (Cons c cs)
  from Cons.prems have nc: "\<not> sublist (CRLF @ db) cs" and np: "\<not> prefix (CRLF @ db) (c # cs)"
    by (auto simp: sublist_Cons_right CRLF_def)
  from Cons.IH [OF nc]
  have ih: "find_delimiter (CRLF @ db) (cs @ CRLF @ db @ ''--'' @ rest) = Some (cs, True, rest)" .
  have "\<not> prefix (CRLF @ db) (c # cs @ CRLF @ db @ ''--'' @ rest)"
  proof
    assume "prefix (CRLF @ db) (c # cs @ CRLF @ db @ ''--'' @ rest)"
    then have "prefix (CHR 0x0D # (CHR 0x0A # db)) ((c # cs) @ CHR 0x0D # (CHR 0x0A # db @ ''--'' @ rest))"
      by (auto simp: CRLF_def)
    moreover from assms have "CHR 0x0D \<notin> set (CHR 0x0A # db)" by simp
    ultimately have "prefix (CHR 0x0D # (CHR 0x0A # db)) (c # cs)"
      by (rule prefix_within) simp
    with np show False by (simp add: CRLF_def)
  qed
  with ih have "find_delimiter (CRLF @ db) (c # cs @ CRLF @ db @ ''--'' @ rest) = Some (c # cs, True, rest)"
    by (rule find_delimiter_step)
  then show ?case by simp
qed

lemma read_headers_line:
  "CHR 0x0D \<notin> set xs \<Longrightarrow>
   read_headers cur (xs @ CRLF @ ys) =
     (if cur @ xs = [] then Some ([], ys)
      else map_option (\<lambda>(hs, b). ((cur @ xs) # hs, b)) (read_headers [] ys))"
proof (induction xs arbitrary: cur)
  case Nil
  then show ?case by (simp add: CRLF_def)
next
  case (Cons x xs)
  then have x: "x \<noteq> CHR 0x0D" and xs: "CHR 0x0D \<notin> set xs" by auto
  obtain c' cs where e: "xs @ CRLF @ ys = c' # cs"
    by (cases xs) (auto simp: CRLF_def)
  have "read_headers cur ((x # xs) @ CRLF @ ys) = read_headers (cur @ [x]) (xs @ CRLF @ ys)"
    using x by (simp add: e)
  also have "\<dots> = (if (cur @ [x]) @ xs = [] then Some ([], ys)
      else map_option (\<lambda>(hs, b). (((cur @ [x]) @ xs) # hs, b)) (read_headers [] ys))"
    by (rule Cons.IH [OF xs])
  finally show ?case by simp
qed

lemma digit_char_mem: "d < 10 \<Longrightarrow> digit_char d \<in> set ''0123456789''"
  unfolding digit_char_def by (rule nth_mem) simp

lemma set_show_nat: "set (show_nat n) \<subseteq> set ''0123456789''"
proof (induction n rule: show_nat.induct)
  case (1 n)
  show ?case
  proof (cases "n < 10")
    case True
    then show ?thesis
      using digit_char_mem [of n] by (subst show_nat.simps) simp
  next
    case False
    with 1 have "set (show_nat (n div 10)) \<subseteq> set ''0123456789''" by simp
    moreover have "digit_char (n mod 10) \<in> set ''0123456789''"
      by (rule digit_char_mem) simp
    ultimately show ?thesis
      using False by (subst show_nat.simps) simp
  qed
qed

lemma CR_notin_boundary: "CHR 0x0D \<notin> set (boundary_of t)"
  using set_show_nat [of t] by (auto simp: boundary_of_def)

lemma hex_char_mem: "d < 16 \<Longrightarrow> hex_char d \<in> set ''0123456789abcdef''"
  unfolding hex_char_def by (rule nth_mem) simp

lemma CR_notin_escape: "CHR 0x0D \<notin> set (json_escape_char c)"
proof -
  have "hex_char ((of_char c :: nat) div 16) \<noteq> CHR 0x0D" if "(of_char c :: nat) < 32"
  proof -
    from that have "(of_char c :: nat) div 16 < 16" by arith
    from hex_char_mem [OF this] show ?thesis by auto
  qed
  moreover have "hex_char ((of_char c :: nat) mod 16) \<noteq> CHR 0x0D"
    using hex_char_mem [of "(of_char c :: nat) mod 16"] by auto
  ultimately show ?thesis
    by (auto simp: json_escape_char_def)
qed

lemma CR_notin_json_quote: "CHR 0x0D \<notin> set (json_quote s)"
  by (simp add: json_quote_def CR_notin_escape)

lemma CR_notin_commands: "CHR 0x0D \<notin> set (json_stringify (commands title))"
  by (simp add: json_commands CR_notin_json_quote)

lemma find_delimiter_line:
  assumes "find_delimiter (CRLF @ db) ys = Some (p, f, r)"
    and "CHR 0x0D \<notin> set line" and "\<not> prefix db ys"
  shows "find_delimiter (CRLF @ db) (line @ CRLF @ ys) = Some (line @ CRLF @ p, f, r)"
proof -
  from assms(1,3) have "find_delimiter (CRLF @ db) (CRLF @ ys) = Some (CRLF @ p, f, r)"
    by (rule find_delimiter_skip_CRLF)
  then have "find_delimiter (CHR 0x0D # CHR 0x0A # db) (CRLF @ ys) = Some (CRLF @ p, f, r)"
    by (simp add: CRLF_def)
  from find_delimiter_skip [OF this assms(2)] show ?thesis
    by (simp add: CRLF_def)
qed

lemma parse_two_parts:
  assumes free: "\<not> sublist (CRLF @ ''--'' @ boundary_of t) (CRLF @ jpeg)"
  shows \<open>parse_multipart (boundary_of t)
       (commandsPart (boundary_of t) title @ imagePart (boundary_of t) @ jpeg @
        CRLF @ ''--'' @ boundary_of t @ ''--'' @ epilogue) =
     Some [\<lparr> part_name = Some ''Commands'',
              header_lines = [''Content-Disposition: form-data; name="Commands"'',
                              ''Content-Type: application/json''],
              part_content = json_stringify (commands title) \<rparr>,
           \<lparr> part_name = Some ''diagramImage'',
              header_lines = [''Content-Disposition: form-data; name="diagramImage"'',
                              ''Content-Type: image/jpeg'',
                              ''Content-Transfer-Encoding: binary''],
              part_content = jpeg \<rparr>]\<close>
proof -
  define B where "B = boundary_of t"
  define db where "db = ''--'' @ B"
  define d where "d = CRLF @ db"
  define J where "J = json_stringify (commands title)"
  define L1 where \<open>L1 = ''Content-Disposition: form-data; name="Commands"''\<close>
  define L2 where \<open>L2 = ''Content-Type: application/json''\<close>
  define M1 where \<open>M1 = ''Content-Disposition: form-data; name="diagramImage"''\<close>
  define M2 where \<open>M2 = ''Content-Type: image/jpeg''\<close>
  define M3 where \<open>M3 = ''Content-Transfer-Encoding: binary''\<close>
  define P1 where "P1 = L1 @ CRLF @ L2 @ CRLF @ [] @ CRLF @ J"
  define P2 where "P2 = M1 @ CRLF @ M2 @ CRLF @ M3 @ CRLF @ [] @ CRLF @ jpeg"
  define rest1 where "rest1 = P2 @ CRLF @ db @ ''--'' @ epilogue"
  have crB: "CHR 0x0D \<notin> set db"
    using CR_notin_boundary [of t] by (simp add: db_def B_def)
  have crJ: "CHR 0x0D \<notin> set J"
    by (simp add: J_def CR_notin_commands)
  have cr: "CHR 0x0D \<notin> set L1" "CHR 0x0D \<notin> set L2" "CHR 0x0D \<notin> set M1"
    "CHR 0x0D \<notin> set M2" "CHR 0x0D \<notin> set M3" "CHR 0x0D \<notin> set []"
    by (simp_all add: L1_def L2_def M1_def M2_def M3_def)
  have np: "\<not> prefix db (L2 @ x)" "\<not> prefix db (M2 @ x)" "\<not> prefix db (M3 @ x)"
    "\<not> prefix db ([] @ CRLF @ x)" "\<not> prefix db (J @ x)" for x
    by (simp_all add: db_def L2_def M2_def M3_def CRLF_def J_def json_commands)
  have nsub: "\<not> sublist (CRLF @ db) jpeg"
  proof
    assume "sublist (CRLF @ db) jpeg"
    then obtain ps ss where "jpeg = ps @ (CRLF @ db) @ ss"
      by (auto simp: sublist_def)
    then have "CRLF @ jpeg = (CRLF @ ps) @ (CRLF @ db) @ ss" by simp
    then have "sublist (CRLF @ db) (CRLF @ jpeg)"
      unfolding sublist_def by blast
    with free show False by (simp add: db_def B_def)
  qed
  have npj: "\<not> prefix db (jpeg @ CRLF @ x)" for x
  proof
    assume "prefix db (jpeg @ CRLF @ x)"
    then have "prefix db (jpeg @ CHR 0x0D # (CHR 0x0A # x))" by (simp add: CRLF_def)
    then have "prefix db jpeg" using crB by (rule prefix_before_char)
    then have "prefix (CRLF @ db) (CRLF @ jpeg)" by simp
    then have "sublist (CRLF @ db) (CRLF @ jpeg)" by (rule prefix_imp_sublist)
    with free show False by (simp add: db_def B_def)
  qed
  text \<open>The first part ends at the delimiter that opens the second.\<close>
  have "find_delimiter d (d @ CRLF @ rest1) = Some ([], False, rest1)"
    by (rule find_delimiter_next) (simp add: d_def CRLF_def)
  then have "find_delimiter (CHR 0x0D # CHR 0x0A # db) (d @ CRLF @ rest1) = Some ([], False, rest1)"
    by (simp add: d_def CRLF_def)
  from find_delimiter_skip [OF this crJ]
  have "find_delimiter (CRLF @ db) (J @ CRLF @ db @ CRLF @ rest1) = Some (J, False, rest1)"
    by (simp add: d_def CRLF_def)
  from find_delimiter_line [OF this cr(6) np(5)]
  have "find_delimiter (CRLF @ db) ([] @ CRLF @ J @ CRLF @ db @ CRLF @ rest1) =
          Some ([] @ CRLF @ J, False, rest1)" .
  from find_delimiter_line [OF this cr(2) np(4)]
  have "find_delimiter (CRLF @ db) (L2 @ CRLF @ [] @ CRLF @ J @ CRLF @ db @ CRLF @ rest1) =
          Some (L2 @ CRLF @ [] @ CRLF @ J, False, rest1)" .
  from find_delimiter_line [OF this cr(1) np(1)]
  have f1: "find_delimiter d (P1 @ d @ CRLF @ rest1) = Some (P1, False, rest1)"
    by (simp add: P1_def d_def)
  text \<open>The second part ends at the closing delimiter.\<close>
  have "find_delimiter (CRLF @ db) (jpeg @ CRLF @ db @ ''--'' @ epilogue) = Some (jpeg, True, epilogue)"
    using crB nsub by (rule find_delimiter_content)
  from find_delimiter_line [OF this cr(6) npj]
  have "find_delimiter (CRLF @ db) ([] @ CRLF @ jpeg @ CRLF @ db @ ''--'' @ epilogue) =
          Some ([] @ CRLF @ jpeg, True, epilogue)" .
  from find_delimiter_line [OF this cr(5) np(4)]
  have "find_delimiter (CRLF @ db) (M3 @ CRLF @ [] @ CRLF @ jpeg @ CRLF @ db @ ''--'' @ epilogue) =
          Some (M3 @ CRLF @ [] @ CRLF @ jpeg, True, epilogue)" .
  from find_delimiter_line [OF this cr(4) np(3)]
  have "find_delimiter (CRLF @ db) (M2 @ CRLF @ M3 @ CRLF @ [] @ CRLF @ jpeg @ CRLF @ db @ ''--'' @ epilogue) =
          Some (M2 @ CRLF @ M3 @ CRLF @ [] @ CRLF @ jpeg, True, epilogue)" .
  from find_delimiter_line [OF this cr(3) np(2)]
  have f2: "find_delimiter d rest1 = Some (P2, True, epilogue)"
    by (simp add: P2_def rest1_def d_def)
  have sp: "split_parts d (P1 @ d @ CRLF @ rest1) = Some [P1, P2]"
    by (subst split_parts.simps, simp add: f1, subst split_parts.simps, simp add: f2)
  text \<open>The headers of each part end at the empty line.\<close>
  have ne: "L1 \<noteq> []" "L2 \<noteq> []" "M1 \<noteq> []" "M2 \<noteq> []" "M3 \<noteq> []"
    by (simp_all add: L1_def L2_def M1_def M2_def M3_def)
  have e: "read_headers [] (CRLF @ x) = Some ([], x)" for x
    using read_headers_line [OF cr(6), of "[]" x] by simp
  have "read_headers [] (L2 @ CRLF @ CRLF @ J) = Some ([L2], J)"
    using read_headers_line [OF cr(2), of "[]" "CRLF @ J"] ne by (simp add: e)
  then have h1: "read_headers [] P1 = Some ([L1, L2], J)"
    using read_headers_line [OF cr(1), of "[]" "L2 @ CRLF @ CRLF @ J"] ne by (simp add: P1_def)
  have "read_headers [] (M3 @ CRLF @ CRLF @ jpeg) = Some ([M3], jpeg)"
    using read_headers_line [OF cr(5), of "[]" "CRLF @ jpeg"] ne by (simp add: e)
  then have "read_headers [] (M2 @ CRLF @ M3 @ CRLF @ CRLF @ jpeg) = Some ([M2, M3], jpeg)"
    using read_headers_line [OF cr(4), of "[]" "M3 @ CRLF @ CRLF @ jpeg"] ne by simp
  then have h2: "read_headers [] P2 = Some ([M1, M2, M3], jpeg)"
    using read_headers_line [OF cr(3), of "[]" "M2 @ CRLF @ M3 @ CRLF @ CRLF @ jpeg"] ne
    by (simp add: P2_def)
  have n1: "disposition_name [L1, L2] = Some ''Commands''"
    by (simp add: L1_def)
  have n2: "disposition_name [M1, M2, M3] = Some ''diagramImage''"
    by (simp add: M1_def)
  have buf: "commandsPart B title @ imagePart B @ jpeg @ CRLF @ ''--'' @ B @ ''--'' @ epilogue =
      (''--'' @ B @ CRLF) @ P1 @ d @ CRLF @ rest1"
    by (simp add: commandsPart_def imagePart_def
          P1_def P2_def rest1_def d_def db_def J_def L1_def L2_def M1_def M2_def M3_def)
  have "length (''--'' @ B @ CRLF) = length B + 4"
    by (simp add: CRLF_def)
  then have dr: "drop (length B + 4) ((''--'' @ B @ CRLF) @ x) = x" for x
    by (metis append_eq_conv_conj)
  have pf: "prefix (''--'' @ B @ CRLF) ((''--'' @ B @ CRLF) @ x)" for x
    by (rule prefixI) simp
  have dd: "CRLF @ ''--'' @ B = d"
    by (simp add: d_def db_def)
  have "parse_multipart B
          (commandsPart B title @ imagePart B @ jpeg @ CRLF @ ''--'' @ B @ ''--'' @ epilogue) =
          those (map parse_part [P1, P2])"
    unfolding buf parse_multipart_def
    by (simp only: pf dr dd sp if_True option.case)
  also have "\<dots> = Some [\<lparr> part_name = Some ''Commands'', header_lines = [L1, L2], part_content = J \<rparr>,
           \<lparr> part_name = Some ''diagramImage'', header_lines = [M1, M2, M3], part_content = jpeg \<rparr>]"
    by (simp add: parse_part_def h1 h2 n1 n2 del: disposition_name.simps)
  finally show ?thesis
    by (simp add: B_def J_def L1_def L2_def M1_def M2_def M3_def)
qed

text \<open>
  Claim C2, as amended. When the delimiter (CRLF, two dashes, the boundary token) does not
  occur in the rendered bytes preceded by the CRLF that ends the headers of their part, the
  body of the PATCH request parses, against the token, to exactly two parts named \<^verbatim>\<open>Commands\<close> and \<^verbatim>\<open>diagramImage\<close> in this order, the
  content of the second being the rendered bytes. The same token is in the opening lines of
  both parts, in the closing line and in the Content-Type header of the request, and all
  separators are the two bytes 0x0D 0x0A.
\<close>

theorem multipart_body_has_two_parts:
  assumes "snd (generateJpegFromMermaid w content) = Inr jpeg"
    and "post_page w (placeholder_request sid title content descr) = Inr pg"
    and "\<not> sublist (CRLF @ ''--'' @ boundary_of (date_now w)) (CRLF @ jpeg)"
  shows \<open>sends (fst (saveDiagram w sid title content descr)) =
           [placeholder_request sid title content descr, image_request w pg title jpeg]
     \<and> verb (image_request w pg title jpeg) = PATCH
     \<and> headers (image_request w pg title jpeg) =
         [(''Content-Type'', ''multipart/form-data; boundary='' @ boundary_of (date_now w))]
     \<and> body (image_request w pg title jpeg) =
         ''--'' @ boundary_of (date_now w) @ [CHR 0x0D, CHR 0x0A] @
         ''Content-Disposition: form-data; name="Commands"'' @ [CHR 0x0D, CHR 0x0A] @
         ''Content-Type: application/json'' @ [CHR 0x0D, CHR 0x0A] @
         [CHR 0x0D, CHR 0x0A] @
         json_stringify (commands title) @ [CHR 0x0D, CHR 0x0A] @
         ''--'' @ boundary_of (date_now w) @ [CHR 0x0D, CHR 0x0A] @
         ''Content-Disposition: form-data; name="diagramImage"'' @ [CHR 0x0D, CHR 0x0A] @
         ''Content-Type: image/jpeg'' @ [CHR 0x0D, CHR 0x0A] @
         ''Content-Transfer-Encoding: binary'' @ [CHR 0x0D, CHR 0x0A] @
         [CHR 0x0D, CHR 0x0A] @
         jpeg @
         [CHR 0x0D, CHR 0x0A] @ ''--'' @ boundary_of (date_now w) @ ''--'' @ [CHR 0x0D, CHR 0x0A]
     \<and> parse_multipart (boundary_of (date_now w)) (body (image_request w pg title jpeg)) =
         Some [\<lparr> part_name = Some ''Commands'',
                  header_lines = [''Content-Disposition: form-data; name="Commands"'',
                                  ''Content-Type: application/json''],
                  part_content = json_stringify (commands title) \<rparr>,
               \<lparr> part_name = Some ''diagramImage'',
                  header_lines = [''Content-Disposition: form-data; name="diagramImage"'',
                                  ''Content-Type: image/jpeg'',
                                  ''Content-Transfer-Encoding: binary''],
                  part_content = jpeg \<rparr>]\<close>
proof (intro conjI)
  show "sends (fst (saveDiagram w sid title content descr)) =
           [placeholder_request sid title content descr, image_request w pg title jpeg]"
    using assms(1,2) by (simp add: sends_saveDiagram)
next
  have "body (image_request w pg title jpeg) =
      commandsPart (boundary_of (date_now w)) title @ imagePart (boundary_of (date_now w)) @ jpeg @
        CRLF @ ''--'' @ boundary_of (date_now w) @ ''--'' @ CRLF"
    by (simp add: patch_request_def multipartBuffer_def closingBoundary_def)
  with parse_two_parts [OF assms(3), of title CRLF]
  show \<open>parse_multipart (boundary_of (date_now w)) (body (image_request w pg title jpeg)) =
         Some [\<lparr> part_name = Some ''Commands'',
                  header_lines = [''Content-Disposition: form-data; name="Commands"'',
                                  ''Content-Type: application/json''],
                  part_content = json_stringify (commands title) \<rparr>,
               \<lparr> part_name = Some ''diagramImage'',
                  header_lines = [''Content-Disposition: form-data; name="diagramImage"'',
                                  ''Content-Type: image/jpeg'',
                                  ''Content-Transfer-Encoding: binary''],
                  part_content = jpeg \<rparr>]\<close>
    by (simp only:)
qed (simp_all add: patch_request_def multipartBuffer_def commandsPart_def imagePart_def
       closingBoundary_def CRLF_def)

text \<open>Claim C2: the theorem at a concrete world.\<close>

theorem multipart_body_has_two_parts_witness:
  \<open>parse_multipart ''PartBoundary5''
     (body (patch_request ''pg-1'' ''PartBoundary5'' (multipartBuffer ''PartBoundary5'' ''Flow'' ''JFIF''))) =
     Some [\<lparr> part_name = Some ''Commands'',
              header_lines = [''Content-Disposition: form-data; name="Commands"'',
                              ''Content-Type: application/json''],
              part_content = json_stringify (commands ''Flow'') \<rparr>,
           \<lparr> part_name = Some ''diagramImage'',
              header_lines = [''Content-Disposition: form-data; name="diagramImage"'',
                              ''Content-Type: image/jpeg'',
                              ''Content-Transfer-Encoding: binary''],
              part_content = ''JFIF'' \<rparr>]\<close>
proof -
  have a: \<open>snd (generateJpegFromMermaid world_ok ''graph TD; A-->B'') = Inr ''JFIF''\<close>
    by (simp add: render_eval world_defs)
  have b: \<open>post_page world_ok (placeholder_request ''sec-1'' ''Flow'' ''graph TD; A-->B'' []) =
      Inr \<lparr> page_id = ''pg-1'', page_title = ''Flow'' \<rparr>\<close>
    by (simp add: world_defs)
  have t: "date_now world_ok = 5"
    by (simp add: world_defs)
  have c: "\<not> sublist (CRLF @ ''--'' @ boundary_of (date_now world_ok)) (CRLF @ ''JFIF'')"
    by (simp add: t boundary_of_5 sublist_Cons_right CRLF_def)
  from multipart_body_has_two_parts [OF a b c, THEN conjunct2, THEN conjunct2, THEN conjunct2, THEN conjunct2]
  show ?thesis
    by (simp only: t boundary_of_5 page.simps)
qed

text \<open>
  Claim C2 as stated fails for a rendered buffer that contains the delimiter: the reference
  parser ends the image part there, and the content of the \<^verbatim>\<open>diagramImage\<close> part is a
  proper prefix of the rendered bytes.
\<close>

theorem multipart_body_has_two_parts_counterexample:
  \<open>snd (generateJpegFromMermaid world_collision ''graph TD; A-->B'') =
     Inr (''A'' @ CRLF @ ''--PartBoundary5--'')
   \<and> sends (fst (saveDiagram world_collision ''sec-1'' ''Flow'' ''graph TD; A-->B'' [])) =
       [placeholder_request ''sec-1'' ''Flow'' ''graph TD; A-->B'' [],
        patch_request ''pg-1'' ''PartBoundary5''
          (multipartBuffer ''PartBoundary5'' ''Flow'' (''A'' @ CRLF @ ''--PartBoundary5--''))]
   \<and> parse_multipart ''PartBoundary5''
       (multipartBuffer ''PartBoundary5'' ''Flow'' (''A'' @ CRLF @ ''--PartBoundary5--'')) =
       Some [\<lparr> part_name = Some ''Commands'',
                header_lines = [''Content-Disposition: form-data; name="Commands"'',
                                ''Content-Type: application/json''],
                part_content = json_stringify (commands ''Flow'') \<rparr>,
             \<lparr> part_name = Some ''diagramImage'',
                header_lines = [''Content-Disposition: form-data; name="diagramImage"'',
                                ''Content-Type: image/jpeg'',
                                ''Content-Transfer-Encoding: binary''],
                part_content = ''A'' \<rparr>]
   \<and> ''A'' \<noteq> ''A'' @ CRLF @ ''--PartBoundary5--''\<close>
proof (intro conjI)
  show a: \<open>snd (generateJpegFromMermaid world_collision ''graph TD; A-->B'') =
     Inr (''A'' @ CRLF @ ''--PartBoundary5--'')\<close>
    by (simp add: render_eval world_defs world_collision_def)
  show \<open>sends (fst (saveDiagram world_collision ''sec-1'' ''Flow'' ''graph TD; A-->B'' [])) =
       [placeholder_request ''sec-1'' ''Flow'' ''graph TD; A-->B'' [],
        patch_request ''pg-1'' ''PartBoundary5''
          (multipartBuffer ''PartBoundary5'' ''Flow'' (''A'' @ CRLF @ ''--PartBoundary5--''))]\<close>
  proof -
    have pp: \<open>post_page world_collision x = Inr \<lparr> page_id = ''pg-1'', page_title = ''Flow'' \<rparr>\<close> for x
      by (simp add: world_defs world_collision_def)
    have dn: "date_now world_collision = 5"
      by (simp add: world_defs world_collision_def)
    show ?thesis
      by (simp add: sends_saveDiagram a pp dn boundary_of_5)
  qed
  have "\<not> sublist (CRLF @ ''--'' @ boundary_of 5) (CRLF @ ''A'')"
    by (simp add: boundary_of_5 sublist_Cons_right CRLF_def)
  from parse_two_parts [OF this, of "''Flow''" "CRLF @ ''--PartBoundary5--'' @ CRLF"]
  show \<open>parse_multipart ''PartBoundary5''
       (multipartBuffer ''PartBoundary5'' ''Flow'' (''A'' @ CRLF @ ''--PartBoundary5--'')) =
       Some [\<lparr> part_name = Some ''Commands'',
                header_lines = [''Content-Disposition: form-data; name="Commands"'',
                                ''Content-Type: application/json''],
                part_content = json_stringify (commands ''Flow'') \<rparr>,
             \<lparr> part_name = Some ''diagramImage'',
                header_lines = [''Content-Disposition: form-data; name="diagramImage"'',
                                ''Content-Type: image/jpeg'',
                                ''Content-Transfer-Encoding: binary''],
                part_content = ''A'' \<rparr>]\<close>
    by (simp add: boundary_of_5 multipartBuffer_def closingBoundary_def)
qed simp

end
